theory Spec2Isabelle
  imports Complex_Main "HOL-Library.Sublist" "HOL-Library.Log_Nat"
begin

section \<open>The weekly metrics service (src/app.py)\<close>

text \<open>
  The service is one pipeline, \<open>get_metrics\<close>, with two helpers, \<open>fetch_jira_data\<close>
  (paginated search) and \<open>find_resolution_date_in_changelog\<close>, and a diagnostic endpoint
  \<open>test_dates\<close>. The embedding follows the source function by function.

  Conventions of the embedding.
  \<^item> A JSON object read only through \<open>.get(k, default)\<close> is a record whose field holds the
    default when the key is absent: the source cannot tell the two apart. \<open>issue['key']\<close> is a
    subscript, which raises \<open>KeyError\<close> on an absent key, so \<open>key\<close> is an option.
  \<^item> Strings are ASCII texts, one \<open>char\<close> per character; \<open>str.lower\<close> and the class
    \<open>\d\<close> are the ASCII ones.
  \<^item> A Python \<open>float\<close> is an IEEE 754 double. A finite double is a rational number and is
    modelled by that number, so comparisons are exact; every arithmetic operation of the
    source on floats is the exact operation followed by the rounding \<open>fl\<close> to the nearest
    double.
  \<^item> An exception is a value \<open>Inl e\<close>; the handler of \<open>get_metrics\<close> turns every one of
    them into the HTTP 500 answer.
\<close>

subsection \<open>Exceptions\<close>

datatype error = KeyError | RequestException | JSONDecodeError

definition bind_err :: "error + 'a \<Rightarrow> ('a \<Rightarrow> error + 'b) \<Rightarrow> error + 'b" where
  "bind_err m f = (case m of Inl e \<Rightarrow> Inl e | Inr x \<Rightarrow> f x)"

subsection \<open>Strings\<close>

definition lower_char :: "char \<Rightarrow> char" where
  "lower_char c =
     (case map_of (zip ''ABCDEFGHIJKLMNOPQRSTUVWXYZ'' ''abcdefghijklmnopqrstuvwxyz'') c of
        None \<Rightarrow> c
      | Some d \<Rightarrow> d)"

text \<open>\<open>s.lower()\<close>\<close>

definition lower :: "string \<Rightarrow> string" where
  "lower s = map lower_char s"

text \<open>\<open>sub in s\<close> on strings: some suffix of \<open>s\<close> starts with \<open>sub\<close>.\<close>

fun py_in :: "string \<Rightarrow> string \<Rightarrow> bool" where
  "py_in sub [] = (sub = [])"
| "py_in sub (c # cs) = (prefix sub (c # cs) \<or> py_in sub cs)"

text \<open>\<open>s.replace('Z', '+00:00')\<close>\<close>

definition replace_Z :: "string \<Rightarrow> string" where
  "replace_Z s = concat (map (\<lambda>c. if c = CHR ''Z'' then ''+00:00'' else [c]) s)"

definition is_digit :: "char \<Rightarrow> bool" where
  "is_digit c = (c \<in> set ''0123456789'')"

text \<open>
  \<open>re.search(r'SE-\d+', text)\<close> followed by \<open>match.group(0)\<close>: the scan tries every
  start position from the left; at a position the match is \<open>SE-\<close> and the longest run of
  digits after it (\<open>+\<close> is greedy), which must not be empty.
\<close>

definition match_here :: "string \<Rightarrow> string option" where
  "match_here s =
     (if prefix ''SE-'' s \<and> takeWhile is_digit (drop 3 s) \<noteq> []
      then Some (''SE-'' @ takeWhile is_digit (drop 3 s))
      else None)"

fun re_search :: "string \<Rightarrow> string option" where
  "re_search [] = None"
| "re_search (c # cs) =
     (case match_here (c # cs) of
        Some m \<Rightarrow> Some m
      | None \<Rightarrow> re_search cs)"

subsection \<open>Floating point\<close>

text \<open>
  The integer nearest to a rational, a tie going to the even one; the exponent of a
  non-zero rational, \<open>2 ^ e \<le> |x| < 2 ^ (e + 1)\<close>, from the bit lengths of its numerator and
  denominator; and the rounding of a rational to the nearest double (53 bits of precision,
  smallest exponent -1022, ties to even). Overflow is not modelled: the range of
  \<open>datetime\<close> keeps every duration far below the largest double.
\<close>

definition round_half_even :: "rat \<Rightarrow> int" where
  "round_half_even y =
     (let f = floor y; r = y - of_int f
      in if r < 1 / 2 then f else if r > 1 / 2 then f + 1 else if even f then f else f + 1)"

definition ilog2 :: "rat \<Rightarrow> int" where
  "ilog2 x =
     (case quotient_of \<bar>x\<bar> of (p, q) \<Rightarrow>
        let c = bitlen p - bitlen q in if 2 powi c \<le> \<bar>x\<bar> then c else c - 1)"

definition fl :: "rat \<Rightarrow> rat" where
  "fl x =
     (if x = 0 then 0
      else let ulp = 2 powi (max (ilog2 x) (- 1022) - 52)
           in of_int (round_half_even (x / ulp)) * ulp)"

subsection \<open>Dates\<close>

text \<open>
  \<open>datetime.now()\<close> enters the week computation only through \<open>weekday()\<close>, the addition
  of whole days and the date-only formats of \<open>strftime\<close>, so \<open>today\<close> is its day number
  (Python's proleptic Gregorian ordinal, day 1 being Monday 0001-01-01). \<open>weekday()\<close> is
  Python's: Monday is 0 and Sunday is 6.
\<close>

type_synonym date = int

definition weekday :: "date \<Rightarrow> int" where
  "weekday d = (d + 6) mod 7"

text \<open>The calendar date of a day number, as the datetime module computes it.\<close>

definition days_before_month :: "int list" where
  "days_before_month = [0, 0, 31, 59, 90, 120, 151, 181, 212, 243, 273, 304, 334]"

definition days_in_month :: "int list" where
  "days_in_month = [0, 31, 28, 31, 30, 31, 30, 31, 31, 30, 31, 30, 31]"

definition ord2ymd :: "date \<Rightarrow> int \<times> int \<times> int" where
  "ord2ymd n0 =
     (let n = n0 - 1;
          n400 = n div 146097; n = n mod 146097;
          n100 = n div 36524; n = n mod 36524;
          n4 = n div 1461; n = n mod 1461;
          n1 = n div 365; n = n mod 365;
          year = n400 * 400 + 1 + n100 * 100 + n4 * 4 + n1
      in if n1 = 4 \<or> n100 = 4 then (year - 1, 12, 31)
         else
           let leapyear = (n1 = 3 \<and> (n4 \<noteq> 24 \<or> n100 = 3));
               month = (n + 50) div 32;
               preceding = days_before_month ! nat month
                           + (if month > 2 \<and> leapyear then 1 else 0)
           in if preceding > n
              then let month' = month - 1;
                       preceding' = preceding
                         - (days_in_month ! nat month'
                            + (if month' = 2 \<and> leapyear then 1 else 0))
                   in (year, month', n - preceding' + 1)
              else (year, month, n - preceding + 1))"

definition digit :: "int \<Rightarrow> char" where
  "digit n = ''0123456789'' ! nat (n mod 10)"

text \<open>\<open>d.strftime('%Y-%m-%d')\<close>\<close>

definition strftime_ymd :: "date \<Rightarrow> string" where
  "strftime_ymd d =
     (case ord2ymd d of (y, m, dd) \<Rightarrow>
        [digit (y div 1000), digit (y div 100), digit (y div 10), digit y]
        @ ''-'' @ [digit (m div 10), digit m]
        @ ''-'' @ [digit (dd div 10), digit dd])"

subsection \<open>The week window\<close>

text \<open>Lines 71 to 75 of \<open>get_metrics\<close>.\<close>

definition this_monday :: "date \<Rightarrow> date" where
  "this_monday today = today - weekday today"

definition week_start :: "date \<Rightarrow> date" where
  "week_start today = this_monday today - 7"

definition week_end :: "date \<Rightarrow> date" where
  "week_end today = week_start today + 6"

text \<open>The query strings of \<open>get_metrics\<close> (lines 89, 122, 125, 177 and 209).\<close>

definition new_tickets_jql :: "date \<Rightarrow> string" where
  "new_tickets_jql today =
     ''project = SE AND created >= \"'' @ strftime_ymd (week_start today)
     @ ''\" AND created <= \"'' @ strftime_ymd (week_end today) @ ''\"''"

definition resolved_jql1 :: "date \<Rightarrow> string" where
  "resolved_jql1 today =
     ''project = SE AND resolved >= \"'' @ strftime_ymd (week_start today)
     @ ''\" AND resolved <= \"'' @ strftime_ymd (week_end today) @ ''\"''"

definition resolved_jql2 :: "date \<Rightarrow> string" where
  "resolved_jql2 today =
     ''project = SE AND status CHANGED TO \"Done\" DURING (\"''
     @ strftime_ymd (week_start today) @ ''\", \"'' @ strftime_ymd (week_end today) @ ''\")''"

definition active_jql :: "date \<Rightarrow> string" where
  "active_jql today =
     ''project = SE AND updated >= \"'' @ strftime_ymd (week_start today)
     @ ''\" AND updated <= \"'' @ strftime_ymd (week_end today)
     @ ''\" AND status NOT IN (\"Done\", \"Closed\", \"Resolved\")''"

definition transfer_jql :: "string \<Rightarrow> date \<Rightarrow> string" where
  "transfer_jql team today =
     ''project = '' @ team @ '' AND created >= \"'' @ strftime_ymd (week_start today)
     @ ''\" AND created <= \"'' @ strftime_ymd (week_end today)
     @ ''\" AND (text ~ \"SE-\" OR summary ~ \"SE-\")''"

subsection \<open>The diagnostic endpoint\<close>

record dates_report =
  current_system_date :: string
  calculated_week_start :: string
  calculated_week_end :: string
  test_week_start :: string
  test_week_end :: string
  jql_current :: string
  jql_test :: string

text \<open>
  \<open>test_dates\<close> (lines 34 to 53). Its local \<open>week_start\<close> and \<open>week_end\<close> are the
  two \<open>let\<close>-bound values; the fixed test week is 2024-09-16 to 2024-09-22, the days
  739145 and 739151.
\<close>

definition test_dates :: "date \<Rightarrow> dates_report" where
  "test_dates today =
     (let week_start = today - weekday today;
          week_end = week_start + 6;
          test_start = 739145;
          test_end = 739151
      in \<lparr> current_system_date = strftime_ymd today,
           calculated_week_start = strftime_ymd week_start,
           calculated_week_end = strftime_ymd week_end,
           test_week_start = strftime_ymd test_start,
           test_week_end = strftime_ymd test_end,
           jql_current = ''project = SE AND created >= \"'' @ strftime_ymd week_start
                         @ ''\" AND created <= \"'' @ strftime_ymd week_end @ ''\"'',
           jql_test = ''project = SE AND created >= \"'' @ strftime_ymd test_start
                      @ ''\" AND created <= \"'' @ strftime_ymd test_end @ ''\"'' \<rparr>)"

subsection \<open>Upstream data\<close>

text \<open>
  A change-history item (\<open>field\<close>, \<open>toString\<close>), a history entry (\<open>created\<close>,
  \<open>items\<close>) and an issue. The issue record is the issue object flattened: the entries of
  \<open>fields\<close> the source reads (\<open>status\<close> and \<open>priority\<close> stand for their \<open>name\<close>,
  \<open>description\<close> for \<open>str(description)\<close>) and \<open>changelog.histories\<close>.
\<close>

record item =
  field :: string
  toString :: string

record history =
  history_created :: string
  items :: "item list"

record issue =
  key :: "string option"
  summary :: string
  status :: string
  created :: string
  resolved :: string
  updated :: string
  labels :: "string list"
  priority :: string
  description :: string
  histories :: "history list"

text \<open>
  One answer of the search endpoint: the status code and, when the body is JSON, its
  \<open>issues\<close> and \<open>total\<close>. A request either raises or answers.
\<close>

record search_data =
  issues :: "issue list"
  total :: int

record response =
  status_code :: int
  json :: "search_data option"

datatype reply = Raises | Answers response

text \<open>
  The upstream gives, for a query string, the replies to the successive requests made
  for it; a request made after the last scripted reply raises, as a lost connection does.
\<close>

type_synonym upstream = "string \<Rightarrow> reply list"

subsection \<open>Paginated fetch\<close>

text \<open>
  \<open>fetch_jira_data\<close> (lines 359 to 397): the state of the \<open>while True\<close> loop is
  \<open>start_at\<close> and \<open>all_issues\<close>; each iteration consumes one reply. The request
  parameters (\<open>fields\<close>, \<open>expand\<close>, \<open>maxResults\<close>, \<open>startAt\<close>) reach the result only
  through the replies, which the upstream fixes.
\<close>

fun fetch_loop :: "int \<Rightarrow> reply list \<Rightarrow> int \<Rightarrow> issue list \<Rightarrow> error + issue list" where
  "fetch_loop max_results [] start_at all_issues = Inl RequestException"
| "fetch_loop max_results (Raises # rs) start_at all_issues = Inl RequestException"
| "fetch_loop max_results (Answers resp # rs) start_at all_issues =
     (if status_code resp \<noteq> 200 then Inr all_issues
      else case json resp of
             None \<Rightarrow> Inl JSONDecodeError
           | Some data \<Rightarrow>
               let all_issues' = all_issues @ issues data
               in if int (length (issues data)) < max_results
                     \<or> start_at + max_results \<ge> total data
                  then Inr all_issues'
                  else fetch_loop max_results rs (start_at + max_results) all_issues')"

definition fetch_jira_data :: "upstream \<Rightarrow> string \<Rightarrow> int \<Rightarrow> error + issue list" where
  "fetch_jira_data up jql max_results = fetch_loop max_results (up jql) 0 []"

subsection \<open>Resolution date from the change history\<close>

definition terminal_states :: "string list" where
  "terminal_states = [''Done'', ''Resolved'', ''Closed'', ''Deployed/Done'', ''Complete'']"

text \<open>The inner loop over the items of one entry: does some item make the function return?\<close>

fun items_hit :: "item list \<Rightarrow> bool" where
  "items_hit [] = False"
| "items_hit (it # its) =
     (if field it = ''status'' \<and> toString it \<in> set terminal_states then True
      else items_hit its)"

text \<open>\<open>find_resolution_date_in_changelog\<close> (lines 343 to 357), on the histories.\<close>

fun scan_histories :: "history list \<Rightarrow> string option" where
  "scan_histories [] = None"
| "scan_histories (h # hs) =
     (if items_hit (items h) then Some (history_created h) else scan_histories hs)"

definition find_resolution_date_in_changelog :: "issue \<Rightarrow> string option" where
  "find_resolution_date_in_changelog issue = scan_histories (histories issue)"

subsection \<open>Timestamps\<close>

text \<open>
  A parsed \<open>datetime\<close>: the wall-clock time in microseconds and the UTC offset, \<open>None\<close>
  for a naive value. \<open>datetime.fromisoformat\<close> is the library's parser and is a parameter
  of the model; \<open>None\<close> is its \<open>ValueError\<close>. Subtracting a naive from an aware value
  raises \<open>TypeError\<close>.
\<close>

record pydatetime =
  wall :: int
  utcoffset :: "int option"

type_synonym parser = "string \<Rightarrow> pydatetime option"

definition dt_sub :: "pydatetime \<Rightarrow> pydatetime \<Rightarrow> int option" where
  "dt_sub a b =
     (case (utcoffset a, utcoffset b) of
        (None, None) \<Rightarrow> Some (wall a - wall b)
      | (Some oa, Some ob) \<Rightarrow> Some ((wall a - oa) - (wall b - ob))
      | _ \<Rightarrow> None)"

text \<open>
  The body of the two \<open>try\<close> blocks of lines 146 to 152 and 157 to 163; every exception
  is caught by the bare \<open>except\<close> and gives 0. \<open>total_seconds()\<close> divides the
  microseconds of the difference by \<open>10 ** 6\<close>; this and the two divisions of the source
  are divisions of doubles.
\<close>

definition days_between :: "parser \<Rightarrow> string \<Rightarrow> string \<Rightarrow> rat" where
  "days_between fromisoformat created_s resolved_s =
     (case fromisoformat (replace_Z created_s) of
        None \<Rightarrow> 0
      | Some created_dt \<Rightarrow>
          (case fromisoformat (replace_Z resolved_s) of
             None \<Rightarrow> 0
           | Some resolved_dt \<Rightarrow>
               (case dt_sub resolved_dt created_dt of
                  None \<Rightarrow> 0
                | Some micros \<Rightarrow>
                    let total_seconds = fl (of_int micros / 1000000);
                        resolution_hours = fl (total_seconds / 3600)
                    in fl (resolution_hours / 24))))"

text \<open>Lines 141 to 163: the duration of one merged resolved ticket.\<close>

definition resolution_days_of :: "parser \<Rightarrow> issue \<Rightarrow> rat" where
  "resolution_days_of fromisoformat issue =
     (if created issue \<noteq> [] \<and> resolved issue \<noteq> []
      then days_between fromisoformat (created issue) (resolved issue)
      else if created issue \<noteq> []
      then (case find_resolution_date_in_changelog issue of
              None \<Rightarrow> 0
            | Some resolution_date \<Rightarrow>
                if resolution_date \<noteq> []
                then days_between fromisoformat (created issue) resolution_date
                else 0)
      else 0)"

subsection \<open>The metrics storage\<close>

text \<open>The three shapes of \<open>ticket_data\<close> and the dictionary \<open>metrics\<close> of line 60.\<close>

record new_ticket =
  n_key :: string
  n_summary :: string
  n_status :: string
  n_created :: string
  n_labels :: "string list"
  n_priority :: string

record resolved_ticket =
  r_key :: string
  r_summary :: string
  r_status :: string
  r_created :: string
  r_resolved :: string
  resolution_days :: rat

record status_ticket =
  s_key :: string
  s_summary :: string
  s_status :: string
  s_updated :: string
  days_in_status :: int

record transfer_ticket =
  t_key :: string
  team :: string
  t_summary :: string
  t_status :: string
  t_created :: string
  original_se_key :: string

record metrics =
  new_tickets :: "new_ticket list"
  resolved_tickets :: "resolved_ticket list"
  current_status_tickets :: "status_ticket list"
  transfer_tickets :: "transfer_ticket list"
  incident_tickets :: "new_ticket list"
  labels_count :: "(string \<times> nat) list"

subsection \<open>New tickets and incidents\<close>

text \<open>\<open>Counter[label] += 1\<close>, the counter kept in insertion order as a dictionary is.\<close>

fun counter_incr :: "string \<Rightarrow> (string \<times> nat) list \<Rightarrow> (string \<times> nat) list" where
  "counter_incr l [] = [(l, 1)]"
| "counter_incr l ((k, n) # c) = (if k = l then (k, n + 1) # c else (k, n) # counter_incr l c)"

text \<open>Lines 97 to 99.\<close>

fun count_labels :: "string list \<Rightarrow> (string \<times> nat) list \<Rightarrow> (string \<times> nat) list" where
  "count_labels [] c = c"
| "count_labels (label # ls) c =
     count_labels ls (if lower label \<noteq> ''support'' then counter_incr label c else c)"

text \<open>The test of lines 113 and 114.\<close>

definition is_incident :: "new_ticket \<Rightarrow> bool" where
  "is_incident ticket_data =
     (n_priority ticket_data \<in> set [''Highest'', ''Critical'']
      \<or> list_ex (\<lambda>label. py_in ''incident'' (lower label)) (n_labels ticket_data))"

text \<open>Lines 92 to 115: the loop over the new tickets.\<close>

fun new_tickets_loop :: "issue list \<Rightarrow> metrics \<Rightarrow> error + metrics" where
  "new_tickets_loop [] m = Inr m"
| "new_tickets_loop (issue # rest) m =
     (let m1 = m\<lparr>labels_count := count_labels (labels issue) (labels_count m)\<rparr>
      in case key issue of
           None \<Rightarrow> Inl KeyError
         | Some k \<Rightarrow>
             let ticket_data = \<lparr> n_key = k, n_summary = summary issue,
                                 n_status = status issue, n_created = created issue,
                                 n_labels = labels issue, n_priority = priority issue \<rparr>;
                 m2 = m1\<lparr>new_tickets := new_tickets m1 @ [ticket_data]\<rparr>;
                 m3 = (if is_incident ticket_data
                       then m2\<lparr>incident_tickets := incident_tickets m2 @ [ticket_data]\<rparr>
                       else m2)
             in new_tickets_loop rest m3)"

subsection \<open>Resolved tickets\<close>

text \<open>
  Lines 130 to 134: one pass over a query's result. The state is the pair of
  \<open>all_resolved_keys\<close> and the local list \<open>resolved_tickets\<close>.
\<close>

fun merge_loop :: "issue list \<Rightarrow> string set \<times> issue list \<Rightarrow> error + string set \<times> issue list" where
  "merge_loop [] st = Inr st"
| "merge_loop (issue # rest) (all_resolved_keys, resolved_list) =
     (case key issue of
        None \<Rightarrow> Inl KeyError
      | Some issue_key \<Rightarrow>
          if issue_key \<notin> all_resolved_keys
          then merge_loop rest (insert issue_key all_resolved_keys, resolved_list @ [issue])
          else merge_loop rest (all_resolved_keys, resolved_list))"

text \<open>Lines 127 to 134: the loop over the two queries, each fetched and then merged.\<close>

fun queries_loop ::
  "upstream \<Rightarrow> string list \<Rightarrow> string set \<times> issue list \<Rightarrow> error + string set \<times> issue list" where
  "queries_loop up [] st = Inr st"
| "queries_loop up (jql # jqls) st =
     bind_err (fetch_jira_data up jql 100) (\<lambda>resolved_response.
     bind_err (merge_loop resolved_response st) (\<lambda>st'.
     queries_loop up jqls st'))"

definition fetch_resolved :: "upstream \<Rightarrow> date \<Rightarrow> error + issue list" where
  "fetch_resolved up today =
     bind_err (queries_loop up [resolved_jql1 today, resolved_jql2 today] ({}, []))
       (\<lambda>st. Inr (snd st))"

text \<open>Lines 137 to 174: the loop over the merged tickets.\<close>

fun resolved_loop :: "parser \<Rightarrow> issue list \<Rightarrow> metrics \<Rightarrow> error + metrics" where
  "resolved_loop fromisoformat [] m = Inr m"
| "resolved_loop fromisoformat (issue # rest) m =
     (let days = resolution_days_of fromisoformat issue
      in case key issue of
           None \<Rightarrow> Inl KeyError
         | Some k \<Rightarrow>
             let ticket_data = \<lparr> r_key = k, r_summary = summary issue,
                                 r_status = status issue, r_created = created issue,
                                 r_resolved = resolved issue, resolution_days = days \<rparr>
             in resolved_loop fromisoformat rest
                  (m\<lparr>resolved_tickets := resolved_tickets m @ [ticket_data]\<rparr>))"

subsection \<open>Active tickets\<close>

text \<open>
  Lines 187 to 192: \<open>(datetime.now() - updated_dt.replace(tzinfo=None)).days\<close>, with
  \<open>now\<close> the naive wall-clock time in microseconds. The source reads the clock for every
  ticket; the model uses one reading for the loop.
\<close>

definition days_in_status_of :: "parser \<Rightarrow> int \<Rightarrow> string \<Rightarrow> int" where
  "days_in_status_of fromisoformat now updated_s =
     (if updated_s \<noteq> []
      then (case fromisoformat (replace_Z updated_s) of
              None \<Rightarrow> 0
            | Some updated_dt \<Rightarrow> (now - wall updated_dt) div 86400000000)
      else 0)"

fun active_loop :: "parser \<Rightarrow> int \<Rightarrow> issue list \<Rightarrow> metrics \<Rightarrow> error + metrics" where
  "active_loop fromisoformat now [] m = Inr m"
| "active_loop fromisoformat now (issue # rest) m =
     (case key issue of
        None \<Rightarrow> Inl KeyError
      | Some k \<Rightarrow>
          let ticket_data = \<lparr> s_key = k, s_summary = summary issue, s_status = status issue,
                              s_updated = updated issue,
                              days_in_status =
                                days_in_status_of fromisoformat now (updated issue) \<rparr>
          in active_loop fromisoformat now rest
               (m\<lparr>current_status_tickets := current_status_tickets m @ [ticket_data]\<rparr>))"

subsection \<open>Transfer tickets\<close>

definition teams :: "string list" where
  "teams = [''EIM'', ''ENGGMNT'', ''AM'', ''MRKT'']"

text \<open>Lines 219 to 228: the pair \<open>(is_se_transfer, original_se_key)\<close> of one issue.\<close>

definition classify_transfer :: "issue \<Rightarrow> bool \<times> string" where
  "classify_transfer issue =
     (if py_in ''SE-'' (summary issue) \<or> py_in ''SE-'' (description issue)
      then (True, case re_search (summary issue @ '' '' @ description issue) of
                    Some m \<Rightarrow> m
                  | None \<Rightarrow> ''Unknown'')
      else (False, ''Unknown''))"

text \<open>Lines 213 to 241: the loop over one team's result.\<close>

fun transfer_loop :: "string \<Rightarrow> issue list \<Rightarrow> metrics \<Rightarrow> error + metrics" where
  "transfer_loop tm [] m = Inr m"
| "transfer_loop tm (issue # rest) m =
     (case classify_transfer issue of
        (is_se_transfer, se_key) \<Rightarrow>
          if is_se_transfer
          then let existing_keys = map t_key (transfer_tickets m)
               in case key issue of
                    None \<Rightarrow> Inl KeyError
                  | Some k \<Rightarrow>
                      if k \<notin> set existing_keys
                      then let ticket_data = \<lparr> t_key = k, team = tm,
                                                t_summary = summary issue,
                                                t_status = status issue,
                                                t_created = created issue,
                                                original_se_key = se_key \<rparr>
                           in transfer_loop tm rest
                                (m\<lparr>transfer_tickets := transfer_tickets m @ [ticket_data]\<rparr>)
                      else transfer_loop tm rest m
          else transfer_loop tm rest m)"

text \<open>Lines 207 to 241: the loop over the teams.\<close>

fun teams_loop :: "upstream \<Rightarrow> date \<Rightarrow> string list \<Rightarrow> metrics \<Rightarrow> error + metrics" where
  "teams_loop up today [] m = Inr m"
| "teams_loop up today (tm # tms) m =
     bind_err (fetch_jira_data up (transfer_jql tm today) 50) (\<lambda>transfer_response.
     bind_err (transfer_loop tm transfer_response m) (\<lambda>m'.
     teams_loop up today tms m'))"

subsection \<open>Calculation of the report\<close>

text \<open>
  \<open>sum(xs)\<close> on floats: the additions run from the left, starting at 0, each one rounded
  to a double. This is the builtin of CPython through version 3.11, the interpreters for
  which the source replaces \<open>Z\<close> before \<open>fromisoformat\<close>; from 3.12 on the builtin carries
  a correction term beside the running sum.
\<close>

definition py_sum :: "rat list \<Rightarrow> rat" where
  "py_sum xs = foldl (\<lambda>a b. fl (a + b)) 0 xs"

text \<open>
  \<open>round(x, 1)\<close> on a float: the exact value of \<open>x\<close> is rounded to the nearest tenth, a tie
  going to the even tenth, and the result is the double nearest to that decimal.
\<close>

definition py_round1 :: "rat \<Rightarrow> rat" where
  "py_round1 x = fl (of_int (round_half_even (x * 10)) / 10)"

text \<open>Line 250.\<close>

definition resolution_times :: "metrics \<Rightarrow> rat list" where
  "resolution_times m = filter (\<lambda>d. d \<ge> 0) (map resolution_days (resolved_tickets m))"

text \<open>Line 251: the quotient of the float sum by the length is a division of doubles.\<close>

definition avg_resolution :: "metrics \<Rightarrow> rat" where
  "avg_resolution m =
     (if resolution_times m \<noteq> []
      then py_round1 (fl (py_sum (resolution_times m) / of_nat (length (resolution_times m))))
      else 0)"

record resolution_buckets =
  under_24h :: nat
  days_1_3 :: nat
  days_3_7 :: nat
  over_7_days :: nat

text \<open>Lines 262 to 269: the body of the bucket loop.\<close>

definition bucket_step :: "rat \<Rightarrow> resolution_buckets \<Rightarrow> resolution_buckets" where
  "bucket_step days b =
     (if days < 1 then b\<lparr>under_24h := under_24h b + 1\<rparr>
      else if days \<le> 3 then b\<lparr>days_1_3 := days_1_3 b + 1\<rparr>
      else if days \<le> 7 then b\<lparr>days_3_7 := days_3_7 b + 1\<rparr>
      else b\<lparr>over_7_days := over_7_days b + 1\<rparr>)"

text \<open>Lines 254 to 269.\<close>

fun buckets_loop :: "rat list \<Rightarrow> resolution_buckets \<Rightarrow> resolution_buckets" where
  "buckets_loop [] b = b"
| "buckets_loop (days # rest) b = buckets_loop rest (bucket_step days b)"

definition bucket_counts :: "metrics \<Rightarrow> resolution_buckets" where
  "bucket_counts m =
     buckets_loop (resolution_times m)
       \<lparr> under_24h = 0, days_1_3 = 0, days_3_7 = 0, over_7_days = 0 \<rparr>"

text \<open>Lines 289 to 293: at most six transfers are kept for display.\<close>

fun details_loop :: "transfer_ticket list \<Rightarrow> transfer_ticket list \<Rightarrow> transfer_ticket list" where
  "details_loop [] transfer_details = transfer_details"
| "details_loop (ticket # rest) transfer_details =
     details_loop rest
       (if length transfer_details < 6 then transfer_details @ [ticket] else transfer_details)"

text \<open>
  The successful answer of \<open>/metrics\<close> (lines 296 to 334), without the status analysis,
  the label ranking, the two long-form week labels and the generation time, which no
  property below reads.
\<close>

record speed_buckets =
  lessThan24h :: nat
  oneToThreeDays :: nat
  threeToSevenDays :: nat
  moreThanSevenDays :: nat

record report =
  newTicketsCount :: nat
  resolvedTicketsCount :: nat
  averageResolutionDays :: rat
  incidentsCount :: nat
  transfersCount :: nat
  speedBuckets :: speed_buckets
  weekRange :: string
  details :: "transfer_ticket list"

definition calculate :: "date \<Rightarrow> metrics \<Rightarrow> report" where
  "calculate today m =
     (let b = bucket_counts m
      in \<lparr> newTicketsCount = length (new_tickets m),
           resolvedTicketsCount = length (resolved_tickets m),
           averageResolutionDays = avg_resolution m,
           incidentsCount = length (incident_tickets m),
           transfersCount = length (transfer_tickets m),
           speedBuckets = \<lparr> lessThan24h = under_24h b,
                            oneToThreeDays = days_1_3 b,
                            threeToSevenDays = days_3_7 b,
                            moreThanSevenDays = over_7_days b \<rparr>,
           weekRange = strftime_ymd (week_start today) @ '' to ''
                       @ strftime_ymd (week_end today),
           details = take 5 (details_loop (transfer_tickets m) []) \<rparr>)"

subsection \<open>The endpoint\<close>

definition empty_metrics :: metrics where
  "empty_metrics =
     \<lparr> new_tickets = [], resolved_tickets = [], current_status_tickets = [],
       transfer_tickets = [], incident_tickets = [], labels_count = [] \<rparr>"

text \<open>
  The fetching and processing part of \<open>get_metrics\<close> (lines 88 to 241), in the order
  of the source. \<open>today\<close> is the day of the first \<open>datetime.now()\<close>, \<open>now\<close> the
  wall-clock time read in the active-ticket loop.
\<close>

definition gather :: "parser \<Rightarrow> upstream \<Rightarrow> date \<Rightarrow> int \<Rightarrow> error + metrics" where
  "gather fromisoformat up today now =
     bind_err (fetch_jira_data up (new_tickets_jql today) 100) (\<lambda>new_tickets_response.
     bind_err (new_tickets_loop new_tickets_response empty_metrics) (\<lambda>m1.
     bind_err (fetch_resolved up today) (\<lambda>resolved_list.
     bind_err (resolved_loop fromisoformat resolved_list m1) (\<lambda>m2.
     bind_err (fetch_jira_data up (active_jql today) 100) (\<lambda>active_response.
     bind_err (active_loop fromisoformat now active_response m2) (\<lambda>m3.
     teams_loop up today teams m3))))))"

text \<open>
  \<open>get_metrics\<close>: \<open>Inr\<close> is the report sent with \<open>success: true\<close>, \<open>Inl e\<close> the answer
  of the exception handler (lines 336 to 341), \<open>success: false\<close> with status 500.
\<close>

definition get_metrics :: "parser \<Rightarrow> upstream \<Rightarrow> date \<Rightarrow> int \<Rightarrow> error + report" where
  "get_metrics fromisoformat up today now =
     bind_err (gather fromisoformat up today now) (\<lambda>m. Inr (calculate today m))"

section \<open>Vocabulary of the properties and example inputs\<close>

text \<open>A page answered with status 200 and a JSON body.\<close>

definition ok_page :: "search_data \<Rightarrow> reply" where
  "ok_page d = Answers \<lparr> status_code = 200, json = Some d \<rparr>"

text \<open>
  A change-history entry that records a transition of the field \<open>status\<close> into a terminal
  state, in the words of the specification.
\<close>

definition is_terminal_entry :: "history \<Rightarrow> bool" where
  "is_terminal_entry h =
     list_ex (\<lambda>it. field it = ''status''
                  \<and> toString it \<in> {''Done'', ''Resolved'', ''Closed'', ''Deployed/Done'', ''Complete''})
       (items h)"

text \<open>
  Example inputs: an issue that has a key and defaults elsewhere; a parser that knows five
  timestamps (midnight of 2024-09-16 UTC is its origin); a change history whose third entry
  is the first transition into a terminal state; four resolved tickets, one of them with a
  negative duration.
\<close>

definition mk_issue :: "string \<Rightarrow> issue" where
  "mk_issue k =
     \<lparr> key = Some k, summary = [], status = [], created = [], resolved = [], updated = [],
       labels = [], priority = [], description = [], histories = [] \<rparr>"

definition example_parser :: parser where
  "example_parser s =
     (if s = ''2024-09-16T00:00:00+00:00'' then Some \<lparr> wall = 0, utcoffset = Some 0 \<rparr>
      else if s = ''2024-09-18T12:00:00+00:00''
      then Some \<lparr> wall = 216000000000, utcoffset = Some 0 \<rparr>
      else if s = ''2024-09-15T00:00:00+00:00''
      then Some \<lparr> wall = - 86400000000, utcoffset = Some 0 \<rparr>
      else if s = ''2024-09-16T05:00:00+00:00''
      then Some \<lparr> wall = 18000000000, utcoffset = Some 0 \<rparr>
      else if s = ''2024-09-16T07:00:00+00:00''
      then Some \<lparr> wall = 25200000000, utcoffset = Some 0 \<rparr>
      else None)"

definition example_histories :: "history list" where
  "example_histories =
     [\<lparr> history_created = ''2024-09-16T08:00:00Z'',
        items = [\<lparr> field = ''assignee'', toString = ''Done'' \<rparr>] \<rparr>,
      \<lparr> history_created = ''2024-09-17T08:00:00Z'',
        items = [\<lparr> field = ''status'', toString = ''In Progress'' \<rparr>] \<rparr>,
      \<lparr> history_created = ''2024-09-18T12:00:00Z'',
        items = [\<lparr> field = ''labels'', toString = ''x'' \<rparr>,
                 \<lparr> field = ''status'', toString = ''Done'' \<rparr>] \<rparr>,
      \<lparr> history_created = ''2024-09-19T12:00:00Z'',
        items = [\<lparr> field = ''status'', toString = ''Closed'' \<rparr>] \<rparr>]"


text \<open>
  \<open>contains_ci s sub\<close>: some substring of \<open>s\<close> equals \<open>sub\<close> when case is ignored. The
  incident rule in the words of the specification.
\<close>

definition contains_ci :: "string \<Rightarrow> string \<Rightarrow> bool" where
  "contains_ci s sub = (\<exists>pre mid post. s = pre @ mid @ post \<and> lower mid = lower sub)"

definition incident_spec :: "string \<Rightarrow> string list \<Rightarrow> bool" where
  "incident_spec prio lbls =
     (prio = ''Highest'' \<or> prio = ''Critical'' \<or> (\<exists>label \<in> set lbls. contains_ci label ''incident''))"

text \<open>
  The pattern \<open>SE-\d+\<close>: a match can start at position \<open>n\<close> of the text when \<open>SE-\<close>
  and a digit follow there; the match at \<open>n\<close> is \<open>SE-\<close> with all the digits that follow.
  \<open>recorded_origin text k\<close>: \<open>k\<close> is the match at the first position where one can start,
  or there is no such position and \<open>k\<close> is the default of the source.
\<close>

definition has_match_at :: "string \<Rightarrow> nat \<Rightarrow> bool" where
  "has_match_at text n = (\<exists>d. is_digit d \<and> prefix (''SE-'' @ [d]) (drop n text))"

definition is_match_at :: "string \<Rightarrow> nat \<Rightarrow> string \<Rightarrow> bool" where
  "is_match_at text n m =
     (\<exists>ds rest. drop n text = ''SE-'' @ ds @ rest \<and> m = ''SE-'' @ ds
                \<and> ds \<noteq> [] \<and> list_all is_digit ds
                \<and> (rest = [] \<or> \<not> is_digit (hd rest)))"

definition recorded_origin :: "string \<Rightarrow> string \<Rightarrow> bool" where
  "recorded_origin text k =
     ((\<exists>n. is_match_at text n k \<and> (\<forall>j < n. \<not> has_match_at text j))
      \<or> ((\<forall>n. \<not> has_match_at text n) \<and> k = ''Unknown''))"

text \<open>The transfer ticket \<open>t\<close> was recorded for \<open>issue\<close>, fetched for the team \<open>tm\<close>.\<close>

definition records_transfer :: "issue \<Rightarrow> string \<Rightarrow> transfer_ticket \<Rightarrow> bool" where
  "records_transfer issue tm t =
     (key issue = Some (t_key t) \<and> team t = tm \<and> fst (classify_transfer issue)
      \<and> original_se_key t = snd (classify_transfer issue))"

text \<open>
  An upstream for the week of Wednesday 2024-09-25: three new tickets, two resolved
  queries that share the key SE-2, three candidate transfers of the team EIM; every other
  query is answered with status 503. Then the storage that \<open>gather\<close> computes from it, and
  its state after the new tickets and after the resolved tickets.
\<close>

definition example_new :: "issue list" where
  "example_new =
     [(mk_issue ''SE-10'')\<lparr>priority := ''Critical''\<rparr>,
      (mk_issue ''SE-11'')\<lparr>labels := [''customer-Incident'', ''billing'']\<rparr>,
      (mk_issue ''SE-12'')\<lparr>labels := [''Support'']\<rparr>]"

definition example_resolved1 :: "issue list" where
  "example_resolved1 =
     [(mk_issue ''SE-1'')\<lparr>created := ''2024-09-16T00:00:00Z'',
                            resolved := ''2024-09-18T12:00:00Z''\<rparr>,
      (mk_issue ''SE-2'')\<lparr>summary := ''first'', created := ''2024-09-15T00:00:00Z'',
                            histories := example_histories\<rparr>]"

definition example_resolved2 :: "issue list" where
  "example_resolved2 =
     [(mk_issue ''SE-2'')\<lparr>summary := ''second''\<rparr>,
      (mk_issue ''SE-3'')\<lparr>created := ''2024-09-16T00:00:00Z'',
                            resolved := ''2024-09-15T00:00:00Z''\<rparr>]"

definition example_transfers :: "issue list" where
  "example_transfers =
     [(mk_issue ''EIM-5'')\<lparr>summary := ''Moved from SE-42 to EIM''\<rparr>,
      (mk_issue ''EIM-6'')\<lparr>summary := ''SE- follow up''\<rparr>,
      (mk_issue ''EIM-7'')\<lparr>summary := ''unrelated''\<rparr>]"

definition example_upstream :: upstream where
  "example_upstream q =
     (if q = ''project = SE AND created >= \"2024-09-16\" AND created <= \"2024-09-22\"''
      then [ok_page \<lparr> issues = example_new, total = 3 \<rparr>]
      else if q = ''project = SE AND resolved >= \"2024-09-16\" AND resolved <= \"2024-09-22\"''
      then [ok_page \<lparr> issues = example_resolved1, total = 2 \<rparr>]
      else if q = ''project = SE AND status CHANGED TO \"Done\" DURING (\"2024-09-16\", \"2024-09-22\")''
      then [ok_page \<lparr> issues = example_resolved2, total = 2 \<rparr>]
      else if q = ''project = EIM AND created >= \"2024-09-16\" AND created <= \"2024-09-22\" AND (text ~ \"SE-\" OR summary ~ \"SE-\")''
      then [ok_page \<lparr> issues = example_transfers, total = 3 \<rparr>]
      else [Answers \<lparr> status_code = 503, json = None \<rparr>])"

definition example_merged :: "issue list" where
  "example_merged =
     [(mk_issue ''SE-1'')\<lparr>created := ''2024-09-16T00:00:00Z'',
                            resolved := ''2024-09-18T12:00:00Z''\<rparr>,
      (mk_issue ''SE-2'')\<lparr>summary := ''first'', created := ''2024-09-15T00:00:00Z'',
                            histories := example_histories\<rparr>,
      (mk_issue ''SE-3'')\<lparr>created := ''2024-09-16T00:00:00Z'',
                            resolved := ''2024-09-15T00:00:00Z''\<rparr>]"

definition example_gathered :: metrics where
  "example_gathered =
     \<lparr> new_tickets =
         [\<lparr> n_key = ''SE-10'', n_summary = [], n_status = [], n_created = [],
            n_labels = [], n_priority = ''Critical'' \<rparr>,
          \<lparr> n_key = ''SE-11'', n_summary = [], n_status = [], n_created = [],
            n_labels = [''customer-Incident'', ''billing''], n_priority = [] \<rparr>,
          \<lparr> n_key = ''SE-12'', n_summary = [], n_status = [], n_created = [],
            n_labels = [''Support''], n_priority = [] \<rparr>],
       resolved_tickets =
         [\<lparr> r_key = ''SE-1'', r_summary = [], r_status = [],
            r_created = ''2024-09-16T00:00:00Z'', r_resolved = ''2024-09-18T12:00:00Z'',
            resolution_days = 5 / 2 \<rparr>,
          \<lparr> r_key = ''SE-2'', r_summary = ''first'', r_status = [],
            r_created = ''2024-09-15T00:00:00Z'', r_resolved = [],
            resolution_days = 7 / 2 \<rparr>,
          \<lparr> r_key = ''SE-3'', r_summary = [], r_status = [],
            r_created = ''2024-09-16T00:00:00Z'', r_resolved = ''2024-09-15T00:00:00Z'',
            resolution_days = - 1 \<rparr>],
       current_status_tickets = [],
       transfer_tickets =
         [\<lparr> t_key = ''EIM-5'', team = ''EIM'', t_summary = ''Moved from SE-42 to EIM'',
            t_status = [], t_created = [], original_se_key = ''SE-42'' \<rparr>,
          \<lparr> t_key = ''EIM-6'', team = ''EIM'', t_summary = ''SE- follow up'',
            t_status = [], t_created = [], original_se_key = ''Unknown'' \<rparr>],
       incident_tickets =
         [\<lparr> n_key = ''SE-10'', n_summary = [], n_status = [], n_created = [],
            n_labels = [], n_priority = ''Critical'' \<rparr>,
          \<lparr> n_key = ''SE-11'', n_summary = [], n_status = [], n_created = [],
            n_labels = [''customer-Incident'', ''billing''], n_priority = [] \<rparr>],
       labels_count = [(''customer-Incident'', 1), (''billing'', 1)] \<rparr>"

definition example_m1 :: metrics where
  "example_m1 =
     empty_metrics\<lparr>new_tickets := new_tickets example_gathered,
                     incident_tickets := incident_tickets example_gathered,
                     labels_count := labels_count example_gathered\<rparr>"

definition example_m2 :: metrics where
  "example_m2 = example_m1\<lparr>resolved_tickets := resolved_tickets example_gathered\<rparr>"






definition example_unknown_transfer :: transfer_ticket where
  "example_unknown_transfer =
     \<lparr> t_key = ''EIM-6'', team = ''EIM'', t_summary = ''SE- follow up'',
       t_status = [], t_created = [], original_se_key = ''Unknown'' \<rparr>"


section \<open>Properties\<close>

subsection \<open>The week window\<close>

lemma weekday_range: "0 \<le> weekday d \<and> weekday d < 7"
  by (simp add: weekday_def)

lemma weekday_this_monday: "weekday (this_monday today) = 0"
proof -
  have "(today + 6 - (today + 6) mod 7) mod 7 = 0"
    by (simp add: minus_mod_eq_mult_div)
  then show ?thesis
    by (simp add: this_monday_def weekday_def algebra_simps)
qed

lemma weekday_shift: "weekday (d - 7) = weekday d"
  unfolding weekday_def by presburger

text \<open>
  The two dates of the window in terms of \<open>today\<close>: the start is a Monday, the end the
  Sunday after it, and \<open>today\<close> lies in the seven days that follow the end. The five query
  strings with the two dates written out.
\<close>

lemma strftime_ymd_shape:
  "length (strftime_ymd d) = 10 \<and> strftime_ymd d ! 4 = CHR ''-''
   \<and> strftime_ymd d ! 7 = CHR ''-''"
  by (simp add: strftime_ymd_def split: prod.split)

lemma week_window_arith:
  "weekday (today - (7 + weekday today)) = 0
   \<and> weekday (today - (7 + weekday today) + 6) = 6
   \<and> today - (7 + weekday today) + 7 \<le> today
   \<and> today < today - (7 + weekday today) + 14"
proof -
  have "weekday (week_start today) = 0"
    unfolding week_start_def using weekday_shift weekday_this_monday by simp
  moreover have "week_start today = today - (7 + weekday today)"
    by (simp add: week_start_def this_monday_def)
  ultimately have mon: "weekday (today - (7 + weekday today)) = 0"
    by simp
  then have sun: "weekday (today - (7 + weekday today) + 6) = 6"
    by (simp add: weekday_def) presburger
  show ?thesis
    using mon sun weekday_range [of today] by simp
qed

lemma window_queries:
  "new_tickets_jql today =
     ''project = SE AND created >= \"'' @ strftime_ymd (today - (7 + weekday today))
     @ ''\" AND created <= \"'' @ strftime_ymd (today - (7 + weekday today) + 6) @ ''\"''"
  "resolved_jql1 today =
     ''project = SE AND resolved >= \"'' @ strftime_ymd (today - (7 + weekday today))
     @ ''\" AND resolved <= \"'' @ strftime_ymd (today - (7 + weekday today) + 6) @ ''\"''"
  "resolved_jql2 today =
     ''project = SE AND status CHANGED TO \"Done\" DURING (\"''
     @ strftime_ymd (today - (7 + weekday today)) @ ''\", \"''
     @ strftime_ymd (today - (7 + weekday today) + 6) @ ''\")''"
  "active_jql today =
     ''project = SE AND updated >= \"'' @ strftime_ymd (today - (7 + weekday today))
     @ ''\" AND updated <= \"'' @ strftime_ymd (today - (7 + weekday today) + 6)
     @ ''\" AND status NOT IN (\"Done\", \"Closed\", \"Resolved\")''"
  "transfer_jql tm today =
     ''project = '' @ tm @ '' AND created >= \"''
     @ strftime_ymd (today - (7 + weekday today))
     @ ''\" AND created <= \"'' @ strftime_ymd (today - (7 + weekday today) + 6)
     @ ''\" AND (text ~ \"SE-\" OR summary ~ \"SE-\")''"
proof -
  have ws: "week_start today = today - (7 + weekday today)"
    and we: "week_end today = today - (7 + weekday today) + 6"
    by (simp_all add: week_start_def week_end_def this_monday_def)
  show "new_tickets_jql today =
     ''project = SE AND created >= \"'' @ strftime_ymd (today - (7 + weekday today))
     @ ''\" AND created <= \"'' @ strftime_ymd (today - (7 + weekday today) + 6) @ ''\"''"
    unfolding new_tickets_jql_def ws we ..
  show "resolved_jql1 today =
     ''project = SE AND resolved >= \"'' @ strftime_ymd (today - (7 + weekday today))
     @ ''\" AND resolved <= \"'' @ strftime_ymd (today - (7 + weekday today) + 6) @ ''\"''"
    unfolding resolved_jql1_def ws we ..
  show "resolved_jql2 today =
     ''project = SE AND status CHANGED TO \"Done\" DURING (\"''
     @ strftime_ymd (today - (7 + weekday today)) @ ''\", \"''
     @ strftime_ymd (today - (7 + weekday today) + 6) @ ''\")''"
    unfolding resolved_jql2_def ws we ..
  show "active_jql today =
     ''project = SE AND updated >= \"'' @ strftime_ymd (today - (7 + weekday today))
     @ ''\" AND updated <= \"'' @ strftime_ymd (today - (7 + weekday today) + 6)
     @ ''\" AND status NOT IN (\"Done\", \"Closed\", \"Resolved\")''"
    unfolding active_jql_def ws we ..
  show "transfer_jql tm today =
     ''project = '' @ tm @ '' AND created >= \"''
     @ strftime_ymd (today - (7 + weekday today))
     @ ''\" AND created <= \"'' @ strftime_ymd (today - (7 + weekday today) + 6)
     @ ''\" AND (text ~ \"SE-\" OR summary ~ \"SE-\")''"
    unfolding transfer_jql_def ws we ..
qed

text \<open>
  The Wednesday 2024-09-25 is day 739154; the window of \<open>get_metrics\<close> on that day is
  Monday 2024-09-16 to Sunday 2024-09-22.
\<close>

lemma strftime_ymd_examples:
  "strftime_ymd 739145 = ''2024-09-16''"
  "strftime_ymd 739151 = ''2024-09-22''"
  "strftime_ymd 739152 = ''2024-09-23''"
  "strftime_ymd 739154 = ''2024-09-25''"
  "strftime_ymd 739158 = ''2024-09-29''"
  by (simp_all add: strftime_ymd_def ord2ymd_def digit_def Let_def
      days_before_month_def days_in_month_def)

lemma week_window_example:
  "weekday 739154 = 2 \<and> week_start 739154 = 739145 \<and> week_end 739154 = 739151"
  by (simp add: weekday_def week_start_def week_end_def this_monday_def)

text \<open>
  The run reads the upstream at these query strings only: two upstreams that agree on the
  five kinds of query for the window of \<open>today\<close> give the same storage.
\<close>

lemma gather_reads_window_queries:
  assumes "up (new_tickets_jql today) = up' (new_tickets_jql today)"
    and "up (resolved_jql1 today) = up' (resolved_jql1 today)"
    and "up (resolved_jql2 today) = up' (resolved_jql2 today)"
    and "up (active_jql today) = up' (active_jql today)"
    and "\<And>tm. tm \<in> set teams \<Longrightarrow> up (transfer_jql tm today) = up' (transfer_jql tm today)"
  shows "gather p up today now = gather p up' today now"
proof -
  have t: "up (transfer_jql ''EIM'' today) = up' (transfer_jql ''EIM'' today)"
      "up (transfer_jql ''ENGGMNT'' today) = up' (transfer_jql ''ENGGMNT'' today)"
      "up (transfer_jql ''AM'' today) = up' (transfer_jql ''AM'' today)"
      "up (transfer_jql ''MRKT'' today) = up' (transfer_jql ''MRKT'' today)"
    using assms(5) by (simp_all add: teams_def)
  show ?thesis
    unfolding gather_def fetch_resolved_def teams_def queries_loop.simps teams_loop.simps
      fetch_jira_data_def assms(1-4) t ..
qed

subsection \<open>The diagnostic endpoint\<close>

text \<open>
  \<open>test_dates\<close> never subtracts the seven days that \<open>get_metrics\<close> subtracts: for every
  \<open>today\<close> the window it echoes is the week that contains \<open>today\<close>, one week after the
  window that \<open>get_metrics\<close> queries.
\<close>

lemma test_dates_window_offset:
  "test_dates today =
     \<lparr> current_system_date = strftime_ymd today,
       calculated_week_start = strftime_ymd (week_start today + 7),
       calculated_week_end = strftime_ymd (week_end today + 7),
       test_week_start = strftime_ymd 739145,
       test_week_end = strftime_ymd 739151,
       jql_current = ''project = SE AND created >= \"'' @ strftime_ymd (week_start today + 7)
                     @ ''\" AND created <= \"'' @ strftime_ymd (week_end today + 7) @ ''\"'',
       jql_test = ''project = SE AND created >= \"'' @ strftime_ymd 739145
                  @ ''\" AND created <= \"'' @ strftime_ymd 739151 @ ''\"'' \<rparr>"
  by (simp add: test_dates_def Let_def week_start_def week_end_def this_monday_def add.commute)

text \<open>
  Claim C8 says that \<open>/test-dates\<close> echoes the window that \<open>/metrics\<close> uses. On Wednesday
  2024-09-25 (day 739154) \<open>test_dates\<close> echoes 2024-09-23 to 2024-09-29, while
  \<open>get_metrics\<close> queries 2024-09-16 to 2024-09-22, and \<open>jql_current\<close> differs from the
  new-ticket query of \<open>get_metrics\<close>, whose template it shares.
\<close>

theorem test_dates_echoes_current_week:
  "calculated_week_start (test_dates 739154) = ''2024-09-23''
   \<and> calculated_week_end (test_dates 739154) = ''2024-09-29''
   \<and> strftime_ymd (week_start 739154) = ''2024-09-16''
   \<and> strftime_ymd (week_end 739154) = ''2024-09-22''
   \<and> jql_current (test_dates 739154) \<noteq> new_tickets_jql 739154"
  by (simp add: test_dates_def new_tickets_jql_def week_window_example Let_def
      strftime_ymd_examples)

subsection \<open>Paginated fetch\<close>

lemma fetch_loop_non_200:
  "status_code bad \<noteq> 200 \<Longrightarrow> fetch_loop max_results (Answers bad # rest) start_at acc = Inr acc"
  by simp

lemma fetch_loop_full_pages:
  "(\<And>i. i < length pages \<Longrightarrow>
       max_results \<le> int (length (issues (pages ! i)))
       \<and> start_at + int i * max_results + max_results < total (pages ! i))
   \<Longrightarrow> fetch_loop max_results (map ok_page pages @ later) start_at acc
       = fetch_loop max_results later (start_at + int (length pages) * max_results)
           (acc @ concat (map issues pages))"
proof (induction pages arbitrary: start_at acc)
  case Nil
  then show ?case by simp
next
  case (Cons p ps)
  have p0: "max_results \<le> int (length (issues p)) \<and> start_at + max_results < total p"
    using Cons.prems [of 0] by simp
  have rest: "\<And>i. i < length ps \<Longrightarrow>
       max_results \<le> int (length (issues (ps ! i)))
       \<and> (start_at + max_results) + int i * max_results + max_results < total (ps ! i)"
  proof -
    fix i assume "i < length ps"
    then show "max_results \<le> int (length (issues (ps ! i)))
       \<and> (start_at + max_results) + int i * max_results + max_results < total (ps ! i)"
      using Cons.prems [of "Suc i"] by (simp add: algebra_simps)
  qed
  have step: "fetch_loop max_results (map ok_page (p # ps) @ later) start_at acc
      = fetch_loop max_results (map ok_page ps @ later) (start_at + max_results) (acc @ issues p)"
    using p0 by (simp add: ok_page_def Let_def)
  have ih: "fetch_loop max_results (map ok_page ps @ later) (start_at + max_results)
        (acc @ issues p)
      = fetch_loop max_results later (start_at + max_results + int (length ps) * max_results)
          ((acc @ issues p) @ concat (map issues ps))"
    by (rule Cons.IH [OF rest])
  have idx: "start_at + max_results + int (length ps) * max_results
      = start_at + int (length (p # ps)) * max_results"
    by (simp add: algebra_simps)
  show ?case
    unfolding step ih idx by simp
qed

text \<open>
  Claim C6. Let the replies to the requests of one fetch be some pages with status 200,
  each of which makes the loop go on (a full page, and the offset after it below the reported
  total), then a reply whose status is not 200, then anything. The fetch returns normally,
  with exactly the issues of the pages before the failure, in order. The witness is a
  sequence of three pages whose second request fails: the result is the first page.
\<close>

theorem fetch_stops_at_first_failure:
  assumes "up jql = map ok_page pages @ Answers bad # rest"
    and "\<forall>i < length pages.
           max_results \<le> int (length (issues (pages ! i)))
           \<and> int i * max_results + max_results < total (pages ! i)"
    and "status_code bad \<noteq> 200"
  shows "fetch_jira_data up jql max_results = Inr (concat (map issues pages))"
proof -
  have "fetch_loop max_results (map ok_page pages @ Answers bad # rest) 0 []
      = fetch_loop max_results (Answers bad # rest) (0 + int (length pages) * max_results)
          ([] @ concat (map issues pages))"
    using assms(2) by (intro fetch_loop_full_pages) simp
  then show ?thesis
    using assms(1,3) by (simp add: fetch_jira_data_def)
qed

theorem fetch_stops_at_first_failure_witness:
  "fetch_jira_data
     (\<lambda>q. [ok_page \<lparr> issues = [mk_issue ''SE-1'', mk_issue ''SE-2''], total = 6 \<rparr>,
            Answers \<lparr> status_code = 500, json = None \<rparr>,
            ok_page \<lparr> issues = [mk_issue ''SE-5'', mk_issue ''SE-6''], total = 6 \<rparr>])
     ''project = SE'' 2
   = Inr [mk_issue ''SE-1'', mk_issue ''SE-2'']"
  using fetch_stops_at_first_failure
    [of "\<lambda>q. [ok_page \<lparr> issues = [mk_issue ''SE-1'', mk_issue ''SE-2''], total = 6 \<rparr>,
            Answers \<lparr> status_code = 500, json = None \<rparr>,
            ok_page \<lparr> issues = [mk_issue ''SE-5'', mk_issue ''SE-6''], total = 6 \<rparr>]"
        "''project = SE''"
        "[\<lparr> issues = [mk_issue ''SE-1'', mk_issue ''SE-2''], total = 6 \<rparr>]"
        "\<lparr> status_code = 500, json = None \<rparr>"
        "[ok_page \<lparr> issues = [mk_issue ''SE-5'', mk_issue ''SE-6''], total = 6 \<rparr>]"
        2]
  by simp

subsection \<open>Resolution date from the change history\<close>

lemma items_hit_iff:
  "items_hit its =
     list_ex (\<lambda>it. field it = ''status''
                  \<and> toString it \<in> {''Done'', ''Resolved'', ''Closed'', ''Deployed/Done'', ''Complete''})
       its"
  by (induction its) (auto simp: terminal_states_def)

lemma scan_histories_find:
  "scan_histories hs = map_option history_created (find is_terminal_entry hs)"
  by (induction hs) (simp_all add: items_hit_iff is_terminal_entry_def)

text \<open>
  Claim C4. For a ticket with a creation timestamp and no \<open>resolved\<close> field, the derived
  resolution timestamp is the \<open>created\<close> of the first history entry, in list order, that
  has an item with field \<open>status\<close> and a target value among Done, Resolved, Closed,
  Deployed/Done and Complete, and the duration is computed from it (zero when that
  timestamp is empty); without such an entry the derivation yields none and the duration
  is zero.
\<close>

theorem changelog_fallback:
  assumes "created issue \<noteq> []" and "resolved issue = []"
  shows "case find is_terminal_entry (histories issue) of
           None \<Rightarrow> find_resolution_date_in_changelog issue = None
                    \<and> resolution_days_of fromisoformat issue = 0
         | Some h \<Rightarrow> find_resolution_date_in_changelog issue = Some (history_created h)
                    \<and> resolution_days_of fromisoformat issue =
                        (if history_created h \<noteq> []
                         then days_between fromisoformat (created issue) (history_created h)
                         else 0)"
  using assms
  by (simp add: find_resolution_date_in_changelog_def scan_histories_find
      resolution_days_of_def split: option.split)

theorem changelog_fallback_witness:
  "find is_terminal_entry example_histories =
     Some \<lparr> history_created = ''2024-09-18T12:00:00Z'',
            items = [\<lparr> field = ''labels'', toString = ''x'' \<rparr>,
                     \<lparr> field = ''status'', toString = ''Done'' \<rparr>] \<rparr>
   \<and> find_resolution_date_in_changelog
        ((mk_issue ''SE-7'')\<lparr>created := ''2024-09-16T00:00:00Z'', histories := example_histories\<rparr>)
      = Some ''2024-09-18T12:00:00Z''
   \<and> resolution_days_of example_parser
        ((mk_issue ''SE-7'')\<lparr>created := ''2024-09-16T00:00:00Z'', histories := example_histories\<rparr>)
      = 5 / 2
   \<and> find is_terminal_entry [] = None
   \<and> find_resolution_date_in_changelog ((mk_issue ''SE-8'')\<lparr>created := ''2024-09-16T00:00:00Z''\<rparr>)
      = None
   \<and> resolution_days_of example_parser ((mk_issue ''SE-8'')\<lparr>created := ''2024-09-16T00:00:00Z''\<rparr>)
      = 0"
proof -
  have f: "find is_terminal_entry example_histories =
     Some \<lparr> history_created = ''2024-09-18T12:00:00Z'',
            items = [\<lparr> field = ''labels'', toString = ''x'' \<rparr>,
                     \<lparr> field = ''status'', toString = ''Done'' \<rparr>] \<rparr>"
    by (simp add: example_histories_def is_terminal_entry_def)
  have d: "days_between example_parser ''2024-09-16T00:00:00Z'' ''2024-09-18T12:00:00Z'' = 5 / 2"
    by code_simp
  show ?thesis
    using changelog_fallback
      [of "(mk_issue ''SE-7'')\<lparr>created := ''2024-09-16T00:00:00Z'', histories := example_histories\<rparr>"
          example_parser]
      changelog_fallback
      [of "(mk_issue ''SE-8'')\<lparr>created := ''2024-09-16T00:00:00Z''\<rparr>" example_parser]
    by (simp add: f d mk_issue_def)
qed

subsection \<open>Average and speed buckets\<close>

















lemma bucket_step_fields:
  "under_24h (bucket_step d b) = under_24h b + (if d < 1 then 1 else 0)"
  "days_1_3 (bucket_step d b) = days_1_3 b + (if 1 \<le> d \<and> d \<le> 3 then 1 else 0)"
  "days_3_7 (bucket_step d b) = days_3_7 b + (if 3 < d \<and> d \<le> 7 then 1 else 0)"
  "over_7_days (bucket_step d b) = over_7_days b + (if 7 < d then 1 else 0)"
  by (simp_all add: bucket_step_def)

lemma buckets_loop_fields:
  "under_24h (buckets_loop ds b) = under_24h b + length (filter (\<lambda>d. d < 1) ds)"
  "days_1_3 (buckets_loop ds b) = days_1_3 b + length (filter (\<lambda>d. 1 \<le> d \<and> d \<le> 3) ds)"
  "days_3_7 (buckets_loop ds b) = days_3_7 b + length (filter (\<lambda>d. 3 < d \<and> d \<le> 7) ds)"
  "over_7_days (buckets_loop ds b) = over_7_days b + length (filter (\<lambda>d. 7 < d) ds)"
  by (induction ds arbitrary: b; simp add: bucket_step_fields)+

text \<open>
  Claim C2. One pass of the bucket loop adds one to exactly one counter: under-24h when
  \<open>d < 1\<close>, 1-3 days when \<open>1 \<le> d \<le> 3\<close>, 3-7 days when \<open>3 < d \<le> 7\<close>, over-7-days when
  \<open>d > 7\<close>; the four conditions exclude each other and one of them holds. The boundary
  values 1 and 3 go to 1-3 days and 7 goes to 3-7 days. The reported counts are the numbers
  of counted durations in each range.
\<close>

theorem speed_bucket_boundaries:
  "bucket_step d b =
     \<lparr> under_24h = under_24h b + (if d < 1 then 1 else 0),
       days_1_3 = days_1_3 b + (if 1 \<le> d \<and> d \<le> 3 then 1 else 0),
       days_3_7 = days_3_7 b + (if 3 < d \<and> d \<le> 7 then 1 else 0),
       over_7_days = over_7_days b + (if 7 < d then 1 else 0) \<rparr>
   \<and> (if d < 1 then 1 else 0) + (if 1 \<le> d \<and> d \<le> 3 then 1 else 0)
       + (if 3 < d \<and> d \<le> 7 then 1 else 0) + (if 7 < d then 1 else 0) = (1::nat)
   \<and> bucket_step 1 b = b\<lparr>days_1_3 := days_1_3 b + 1\<rparr>
   \<and> bucket_step 3 b = b\<lparr>days_1_3 := days_1_3 b + 1\<rparr>
   \<and> bucket_step 7 b = b\<lparr>days_3_7 := days_3_7 b + 1\<rparr>
   \<and> speedBuckets (calculate today m) =
       \<lparr> lessThan24h = length (filter (\<lambda>d. d < 1) (resolution_times m)),
         oneToThreeDays = length (filter (\<lambda>d. 1 \<le> d \<and> d \<le> 3) (resolution_times m)),
         threeToSevenDays = length (filter (\<lambda>d. 3 < d \<and> d \<le> 7) (resolution_times m)),
         moreThanSevenDays = length (filter (\<lambda>d. 7 < d) (resolution_times m)) \<rparr>"
proof -
  have step: "bucket_step d b =
     \<lparr> under_24h = under_24h b + (if d < 1 then 1 else 0),
       days_1_3 = days_1_3 b + (if 1 \<le> d \<and> d \<le> 3 then 1 else 0),
       days_3_7 = days_3_7 b + (if 3 < d \<and> d \<le> 7 then 1 else 0),
       over_7_days = over_7_days b + (if 7 < d then 1 else 0) \<rparr>"
    by (simp add: bucket_step_def)
  have one: "(if d < 1 then 1 else 0) + (if 1 \<le> d \<and> d \<le> 3 then 1 else 0)
       + (if 3 < d \<and> d \<le> 7 then 1 else 0) + (if 7 < d then 1 else 0) = (1::nat)"
    by auto
  have edges: "bucket_step 1 b = b\<lparr>days_1_3 := days_1_3 b + 1\<rparr>"
      "bucket_step 3 b = b\<lparr>days_1_3 := days_1_3 b + 1\<rparr>"
      "bucket_step 7 b = b\<lparr>days_3_7 := days_3_7 b + 1\<rparr>"
    by (simp_all add: bucket_step_def)
  have rep: "speedBuckets (calculate today m) =
       \<lparr> lessThan24h = length (filter (\<lambda>d. d < 1) (resolution_times m)),
         oneToThreeDays = length (filter (\<lambda>d. 1 \<le> d \<and> d \<le> 3) (resolution_times m)),
         threeToSevenDays = length (filter (\<lambda>d. 3 < d \<and> d \<le> 7) (resolution_times m)),
         moreThanSevenDays = length (filter (\<lambda>d. 7 < d) (resolution_times m)) \<rparr>"
    by (simp add: calculate_def Let_def bucket_counts_def buckets_loop_fields)
  show ?thesis
    using step one edges rep by blast
qed





subsection \<open>The pipeline\<close>

lemma bind_err_Inr_iff:
  "bind_err a f = Inr y \<longleftrightarrow> (\<exists>x. a = Inr x \<and> f x = Inr y)"
  by (cases a) (simp_all add: bind_err_def)

lemma bind_err_simps [simp]:
  "bind_err (Inl e) f = Inl e"
  "bind_err (Inr x) f = f x"
  by (simp_all add: bind_err_def)

lemma gather_InrD:
  assumes "gather p up today now = Inr m"
  obtains fetched m1 merged m2 active m3 where
    "fetch_jira_data up (new_tickets_jql today) 100 = Inr fetched"
    "new_tickets_loop fetched empty_metrics = Inr m1"
    "fetch_resolved up today = Inr merged"
    "resolved_loop p merged m1 = Inr m2"
    "fetch_jira_data up (active_jql today) 100 = Inr active"
    "active_loop p now active m2 = Inr m3"
    "teams_loop up today teams m3 = Inr m"
  using assms unfolding gather_def bind_err_Inr_iff by blast

text \<open>Every successful answer of the endpoint is the report calculated from the storage.\<close>

lemma get_metrics_success:
  "get_metrics p up today now = Inr r \<longleftrightarrow>
     (\<exists>m. gather p up today now = Inr m \<and> r = calculate today m)"
  unfolding get_metrics_def bind_err_Inr_iff by auto

lemma length_filter_map: "length (filter P (map f xs)) = length (filter (\<lambda>x. P (f x)) xs)"
  by (induction xs) simp_all

lemma find_append_cases:
  "find P (xs @ ys) = (case find P xs of None \<Rightarrow> find P ys | Some x \<Rightarrow> Some x)"
  by (induction xs) simp_all

lemma distinct_key_count:
  "distinct (map f xs) \<Longrightarrow> y \<in> f ` set xs \<Longrightarrow> length (filter (\<lambda>x. f x = y) xs) = 1"
proof (induction xs)
  case Nil
  then show ?case by simp
next
  case (Cons a xs)
  show ?case
  proof (cases "f a = y")
    case True
    from Cons.prems(1) have "f a \<notin> f ` set xs"
      by simp
    with True have "\<forall>x \<in> set xs. f x \<noteq> y"
      by blast
    then have "filter (\<lambda>x. f x = y) xs = []"
      by (simp add: filter_empty_conv)
    with True show ?thesis by simp
  next
    case False
    with Cons show ?thesis by auto
  qed
qed

text \<open>What each loop changes in the storage.\<close>

lemma new_tickets_loop_result:
  assumes "new_tickets_loop iss m = Inr m'"
  shows "map (\<lambda>t. (Some (n_key t), n_priority t, n_labels t)) (new_tickets m')
           = map (\<lambda>t. (Some (n_key t), n_priority t, n_labels t)) (new_tickets m)
             @ map (\<lambda>i. (key i, priority i, labels i)) iss
         \<and> (incident_tickets m = filter is_incident (new_tickets m)
              \<longrightarrow> incident_tickets m' = filter is_incident (new_tickets m'))
         \<and> resolved_tickets m' = resolved_tickets m
         \<and> transfer_tickets m' = transfer_tickets m"
  using assms
proof (induction iss arbitrary: m)
  case Nil
  then show ?case by simp
next
  case (Cons i rest)
  from Cons.prems obtain k where k: "key i = Some k"
    by (cases "key i") (simp_all add: Let_def)
  define td where "td = \<lparr> n_key = k, n_summary = summary i, n_status = status i,
      n_created = created i, n_labels = labels i, n_priority = priority i \<rparr>"
  define m2 where "m2 = m\<lparr>labels_count := count_labels (labels i) (labels_count m),
      new_tickets := new_tickets m @ [td]\<rparr>"
  define m3 where "m3 = (if is_incident td
      then m2\<lparr>incident_tickets := incident_tickets m2 @ [td]\<rparr> else m2)"
  from Cons.prems k have run: "new_tickets_loop rest m3 = Inr m'"
    by (cases "is_incident td") (simp_all add: Let_def m3_def m2_def td_def)
  have nt: "new_tickets m3 = new_tickets m @ [td]"
    and it: "incident_tickets m3 =
        incident_tickets m @ (if is_incident td then [td] else [])"
    and rt: "resolved_tickets m3 = resolved_tickets m"
    and tt: "transfer_tickets m3 = transfer_tickets m"
    by (simp_all add: m3_def m2_def)
  have td_proj: "(Some (n_key td), n_priority td, n_labels td) = (key i, priority i, labels i)"
    by (simp add: td_def k)
  have inv: "incident_tickets m = filter is_incident (new_tickets m)
      \<Longrightarrow> incident_tickets m3 = filter is_incident (new_tickets m3)"
    by (simp add: nt it)
  from Cons.IH [OF run] inv show ?case
    by (simp add: nt rt tt td_proj)
qed

lemma resolved_loop_result:
  assumes "resolved_loop p iss m = Inr m'"
  shows "map (\<lambda>t. (Some (r_key t), resolution_days t)) (resolved_tickets m')
           = map (\<lambda>t. (Some (r_key t), resolution_days t)) (resolved_tickets m)
             @ map (\<lambda>i. (key i, resolution_days_of p i)) iss
         \<and> new_tickets m' = new_tickets m
         \<and> incident_tickets m' = incident_tickets m
         \<and> transfer_tickets m' = transfer_tickets m"
  using assms
proof (induction iss arbitrary: m)
  case Nil
  then show ?case by simp
next
  case (Cons i rest)
  from Cons.prems obtain k where k: "key i = Some k"
    by (cases "key i") (simp_all add: Let_def)
  define td where "td = \<lparr> r_key = k, r_summary = summary i, r_status = status i,
      r_created = created i, r_resolved = resolved i,
      resolution_days = resolution_days_of p i \<rparr>"
  from Cons.prems k
  have run: "resolved_loop p rest (m\<lparr>resolved_tickets := resolved_tickets m @ [td]\<rparr>) = Inr m'"
    by (simp add: Let_def td_def)
  from Cons.IH [OF run] show ?case
    by (simp add: td_def k)
qed

lemma active_loop_result:
  assumes "active_loop p now iss m = Inr m'"
  shows "new_tickets m' = new_tickets m \<and> incident_tickets m' = incident_tickets m
         \<and> resolved_tickets m' = resolved_tickets m
         \<and> transfer_tickets m' = transfer_tickets m"
  using assms
proof (induction iss arbitrary: m)
  case Nil
  then show ?case by simp
next
  case (Cons i rest)
  from Cons.prems obtain k where k: "key i = Some k"
    by (cases "key i") simp_all
  from Cons.prems k obtain mm where run: "active_loop p now rest mm = Inr m'"
    and mm: "new_tickets mm = new_tickets m" "incident_tickets mm = incident_tickets m"
      "resolved_tickets mm = resolved_tickets m" "transfer_tickets mm = transfer_tickets m"
    by (simp add: Let_def)
  from Cons.IH [OF run] mm show ?case by simp
qed

lemma transfer_loop_result:
  assumes "transfer_loop tm iss m = Inr m'"
  shows "new_tickets m' = new_tickets m \<and> incident_tickets m' = incident_tickets m
         \<and> resolved_tickets m' = resolved_tickets m
         \<and> (\<forall>t \<in> set (transfer_tickets m').
               t \<in> set (transfer_tickets m) \<or> (\<exists>issue \<in> set iss. records_transfer issue tm t))"
  using assms
proof (induction iss arbitrary: m)
  case Nil
  then show ?case by simp
next
  case (Cons i rest)
  obtain b sk where c: "classify_transfer i = (b, sk)"
    by (cases "classify_transfer i")
  show ?case
  proof (cases "b \<and> (\<exists>k. key i = Some k \<and> k \<notin> set (map t_key (transfer_tickets m)))")
    case True
    then obtain k where k: "key i = Some k" "k \<notin> set (map t_key (transfer_tickets m))" and b: b
      by blast
    define td where "td = \<lparr> t_key = k, team = tm, t_summary = summary i,
        t_status = status i, t_created = created i, original_se_key = sk \<rparr>"
    from Cons.prems c k b
    have run: "transfer_loop tm rest (m\<lparr>transfer_tickets := transfer_tickets m @ [td]\<rparr>) = Inr m'"
      by (simp add: Let_def td_def)
    have rec: "records_transfer i tm td"
      by (simp add: records_transfer_def td_def c k b)
    from Cons.IH [OF run] rec show ?thesis
      by auto
  next
    case False
    with Cons.prems c have run: "transfer_loop tm rest m = Inr m'"
      by (cases "key i") (auto simp: Let_def split: if_splits)
    from Cons.IH [OF run] show ?thesis
      by auto
  qed
qed

lemma teams_loop_result:
  assumes "teams_loop up today tms m = Inr m'"
  shows "new_tickets m' = new_tickets m \<and> incident_tickets m' = incident_tickets m
         \<and> resolved_tickets m' = resolved_tickets m
         \<and> (\<forall>t \<in> set (transfer_tickets m').
               t \<in> set (transfer_tickets m)
               \<or> (\<exists>tm \<in> set tms. \<exists>fetched.
                     fetch_jira_data up (transfer_jql tm today) 50 = Inr fetched
                     \<and> (\<exists>issue \<in> set fetched. records_transfer issue tm t)))"
  using assms
proof (induction tms arbitrary: m)
  case Nil
  then show ?case by simp
next
  case (Cons tm tms)
  from Cons.prems obtain fetched mm where
      f: "fetch_jira_data up (transfer_jql tm today) 50 = Inr fetched"
      and l: "transfer_loop tm fetched m = Inr mm"
      and run: "teams_loop up today tms mm = Inr m'"
    by (auto simp: bind_err_Inr_iff)
  from transfer_loop_result [OF l] Cons.IH [OF run] f show ?case
    by (simp, blast)
qed

subsection \<open>The example, evaluated\<close>

lemma example_jqls:
  "new_tickets_jql 739154
     = ''project = SE AND created >= \"2024-09-16\" AND created <= \"2024-09-22\"''"
  "resolved_jql1 739154
     = ''project = SE AND resolved >= \"2024-09-16\" AND resolved <= \"2024-09-22\"''"
  "resolved_jql2 739154
     = ''project = SE AND status CHANGED TO \"Done\" DURING (\"2024-09-16\", \"2024-09-22\")''"
  "active_jql 739154
     = ''project = SE AND updated >= \"2024-09-16\" AND updated <= \"2024-09-22\" AND status NOT IN (\"Done\", \"Closed\", \"Resolved\")''"
  "transfer_jql tm 739154
     = ''project = '' @ tm @ '' AND created >= \"2024-09-16\" AND created <= \"2024-09-22\" AND (text ~ \"SE-\" OR summary ~ \"SE-\")''"
  by (simp_all add: new_tickets_jql_def resolved_jql1_def resolved_jql2_def active_jql_def
      transfer_jql_def week_window_example strftime_ymd_examples)

lemma example_upstream_simps:
  "example_upstream (new_tickets_jql 739154) = [ok_page \<lparr> issues = example_new, total = 3 \<rparr>]"
  "example_upstream (resolved_jql1 739154) = [ok_page \<lparr> issues = example_resolved1, total = 2 \<rparr>]"
  "example_upstream (resolved_jql2 739154) = [ok_page \<lparr> issues = example_resolved2, total = 2 \<rparr>]"
  "example_upstream (active_jql 739154) = [Answers \<lparr> status_code = 503, json = None \<rparr>]"
  "example_upstream (transfer_jql ''EIM'' 739154)
     = [ok_page \<lparr> issues = example_transfers, total = 3 \<rparr>]"
  "example_upstream (transfer_jql ''ENGGMNT'' 739154)
     = [Answers \<lparr> status_code = 503, json = None \<rparr>]"
  "example_upstream (transfer_jql ''AM'' 739154) = [Answers \<lparr> status_code = 503, json = None \<rparr>]"
  "example_upstream (transfer_jql ''MRKT'' 739154) = [Answers \<lparr> status_code = 503, json = None \<rparr>]"
  by (simp_all add: example_upstream_def example_jqls)

lemma example_fetches:
  "fetch_jira_data example_upstream (new_tickets_jql 739154) 100 = Inr example_new"
  "fetch_jira_data example_upstream (resolved_jql1 739154) 100 = Inr example_resolved1"
  "fetch_jira_data example_upstream (resolved_jql2 739154) 100 = Inr example_resolved2"
  "fetch_jira_data example_upstream (active_jql 739154) 100 = Inr []"
  "fetch_jira_data example_upstream (transfer_jql ''EIM'' 739154) 50 = Inr example_transfers"
  "fetch_jira_data example_upstream (transfer_jql ''ENGGMNT'' 739154) 50 = Inr []"
  "fetch_jira_data example_upstream (transfer_jql ''AM'' 739154) 50 = Inr []"
  "fetch_jira_data example_upstream (transfer_jql ''MRKT'' 739154) 50 = Inr []"
  by (simp_all add: fetch_jira_data_def example_upstream_simps ok_page_def Let_def
      example_new_def example_resolved1_def example_resolved2_def example_transfers_def)

lemma example_fetch_resolved:
  "fetch_resolved example_upstream 739154
     = Inr example_merged"
  by (simp add: fetch_resolved_def example_fetches example_resolved1_def example_resolved2_def
      example_merged_def mk_issue_def)

lemma example_durations:
  "days_between example_parser ''2024-09-16T00:00:00Z'' ''2024-09-18T12:00:00Z'' = 5 / 2"
  "days_between example_parser ''2024-09-15T00:00:00Z'' ''2024-09-18T12:00:00Z'' = 7 / 2"
  "days_between example_parser ''2024-09-16T00:00:00Z'' ''2024-09-15T00:00:00Z'' = - 1"
  by code_simp+

lemma example_new_stage:
  "new_tickets_loop example_new empty_metrics = Inr example_m1"
  by (simp add: example_new_def mk_issue_def empty_metrics_def example_gathered_def Let_def
      is_incident_def lower_def lower_char_def example_m1_def)

lemma example_resolved_stage:
  "resolved_loop example_parser example_merged example_m1 = Inr example_m2"
  by (simp add: example_merged_def mk_issue_def example_m1_def example_m2_def empty_metrics_def
      example_gathered_def Let_def resolution_days_of_def example_durations
      find_resolution_date_in_changelog_def example_histories_def terminal_states_def)

lemma example_transfer_stage:
  "transfer_loop ''EIM'' example_transfers example_m2 = Inr example_gathered"
  by (simp add: example_transfers_def mk_issue_def example_m1_def example_m2_def
      empty_metrics_def example_gathered_def Let_def classify_transfer_def match_here_def
      is_digit_def)

lemma example_teams_stage:
  "teams_loop example_upstream 739154 teams example_m2 = Inr example_gathered"
  by (simp add: teams_def example_fetches example_transfer_stage)

lemma example_gather: "gather example_parser example_upstream 739154 0 = Inr example_gathered"
  by (simp add: gather_def example_fetches example_fetch_resolved example_new_stage
      example_resolved_stage example_teams_stage)

text \<open>
  The report for the example: three new tickets of which two are incidents, three resolved
  tickets (SE-2 once), an average of 3.0 days over the two non-negative durations.
\<close>

lemma example_report:
  "get_metrics example_parser example_upstream 739154 0
   = Inr \<lparr> newTicketsCount = 3, resolvedTicketsCount = 3, averageResolutionDays = 3,
           incidentsCount = 2, transfersCount = 2,
           speedBuckets = \<lparr> lessThan24h = 0, oneToThreeDays = 1, threeToSevenDays = 1,
                            moreThanSevenDays = 0 \<rparr>,
           weekRange = ''2024-09-16 to 2024-09-22'',
           details = transfer_tickets example_gathered \<rparr>"
proof -
  have avg: "avg_resolution example_gathered = 3"
    by code_simp
  have b: "bucket_counts example_gathered
      = \<lparr> under_24h = 0, days_1_3 = 1, days_3_7 = 1, over_7_days = 0 \<rparr>"
    by (simp add: bucket_counts_def resolution_times_def example_gathered_def bucket_step_def)
  have d: "take 5 (details_loop (transfer_tickets example_gathered) [])
      = transfer_tickets example_gathered"
    by (simp add: example_gathered_def)
  have "calculate 739154 example_gathered
      = \<lparr> newTicketsCount = 3, resolvedTicketsCount = 3, averageResolutionDays = 3,
           incidentsCount = 2, transfersCount = 2,
           speedBuckets = \<lparr> lessThan24h = 0, oneToThreeDays = 1, threeToSevenDays = 1,
                            moreThanSevenDays = 0 \<rparr>,
           weekRange = ''2024-09-16 to 2024-09-22'',
           details = transfer_tickets example_gathered \<rparr>"
    unfolding calculate_def Let_def avg b d
    by (simp add: week_window_example strftime_ymd_examples) (simp add: example_gathered_def)
  then show ?thesis
    by (simp add: get_metrics_def example_gather)
qed

subsection \<open>Merging the two resolved queries\<close>

lemma merge_loop_append:
  "merge_loop (xs @ ys) st = bind_err (merge_loop xs st) (merge_loop ys)"
proof (induction xs st rule: merge_loop.induct)
  case (1 st)
  then show ?case by simp
next
  case (2 issue rest all_resolved_keys resolved_list)
  then show ?case by (simp split: option.split)
qed

lemma merge_loop_invariant:
  assumes "merge_loop xs (S, acc) = Inr (S', acc')"
    and "Some ` S = key ` set acc" and "distinct (map key acc)"
  shows "Some ` S' = key ` set acc' \<and> distinct (map key acc')
         \<and> key ` set acc' = key ` set (acc @ xs)
         \<and> (\<forall>k. find (\<lambda>i. key i = Some k) acc' = find (\<lambda>i. key i = Some k) (acc @ xs))"
  using assms
proof (induction xs arbitrary: S acc)
  case Nil
  then show ?case by simp
next
  case (Cons x xs)
  from Cons.prems(1) obtain k where k: "key x = Some k"
    by (cases "key x") simp_all
  show ?case
  proof (cases "k \<in> S")
    case True
    with k Cons.prems(1) have run: "merge_loop xs (S, acc) = Inr (S', acc')"
      by simp
    from True Cons.prems(2) have seen: "Some k \<in> key ` set acc"
      by blast
    then obtain y where y: "y \<in> set acc" "key y = Some k"
      by force
    have skip: "find (\<lambda>i. key i = Some j) (acc @ x # xs) = find (\<lambda>i. key i = Some j) (acc @ xs)"
      for j
    proof (cases "j = k")
      case True
      with y have "find (\<lambda>i. key i = Some j) acc \<noteq> None"
        by (auto simp: find_None_iff)
      then show ?thesis
        by (auto simp: find_append_cases split: option.split)
    next
      case False
      with k show ?thesis
        by (simp add: find_append_cases split: option.split)
    qed
    have img: "key ` set (acc @ x # xs) = key ` set (acc @ xs)"
      using seen k by auto
    have ih: "Some ` S' = key ` set acc' \<and> distinct (map key acc')
         \<and> key ` set acc' = key ` set (acc @ xs)
         \<and> (\<forall>k. find (\<lambda>i. key i = Some k) acc' = find (\<lambda>i. key i = Some k) (acc @ xs))"
      by (rule Cons.IH [OF run Cons.prems(2,3)])
    show ?thesis
      unfolding skip img by (rule ih)
  next
    case False
    with k Cons.prems(1) have run: "merge_loop xs (insert k S, acc @ [x]) = Inr (S', acc')"
      by simp
    have inv1: "Some ` insert k S = key ` set (acc @ [x])"
      using Cons.prems(2) k by auto
    have "Some k \<notin> key ` set acc"
      using False Cons.prems(2) by blast
    then have inv2: "distinct (map key (acc @ [x]))"
      using Cons.prems(3) k by auto
    from Cons.IH [OF run inv1 inv2] show ?thesis
      by simp
  qed
qed

lemma fetch_resolved_is_merge:
  assumes "fetch_jira_data up (resolved_jql1 today) 100 = Inr r1"
    and "fetch_jira_data up (resolved_jql2 today) 100 = Inr r2"
    and "fetch_resolved up today = Inr merged"
  shows "\<exists>S. merge_loop (r1 @ r2) ({}, []) = Inr (S, merged)"
  using assms
  by (auto simp: fetch_resolved_def merge_loop_append bind_err_Inr_iff)

text \<open>
  Claim C3. Let \<open>r1\<close> and \<open>r2\<close> be the results of the two resolved-ticket queries and
  \<open>merged\<close> their merge. An identifier \<open>k\<close> that occurs in both occurs exactly once in
  \<open>merged\<close>, and the ticket kept for it is its first occurrence in \<open>r1\<close> followed by \<open>r2\<close>.
  The resolved tickets of the storage carry the keys of \<open>merged\<close> in order, so \<open>k\<close> is
  one ticket there and \<open>resolvedTicketsCount\<close> is the length of \<open>merged\<close>.
\<close>

theorem merged_once_first_occurrence:
  assumes "fetch_jira_data up (resolved_jql1 today) 100 = Inr r1"
    and "fetch_jira_data up (resolved_jql2 today) 100 = Inr r2"
    and "fetch_resolved up today = Inr merged"
    and "gather p up today now = Inr m"
    and "Some k \<in> key ` set r1" and "Some k \<in> key ` set r2"
  shows "length (filter (\<lambda>i. key i = Some k) merged) = 1
         \<and> find (\<lambda>i. key i = Some k) merged = find (\<lambda>i. key i = Some k) (r1 @ r2)
         \<and> map (\<lambda>t. Some (r_key t)) (resolved_tickets m) = map key merged
         \<and> length (filter (\<lambda>t. r_key t = k) (resolved_tickets m)) = 1
         \<and> resolvedTicketsCount (calculate today m) = length merged"
proof -
  from fetch_resolved_is_merge [OF assms(1-3)]
  obtain S where run: "merge_loop (r1 @ r2) ({}, []) = Inr (S, merged)" ..
  have inv: "distinct (map key merged)" "key ` set merged = key ` set ([] @ r1 @ r2)"
      "\<forall>k. find (\<lambda>i. key i = Some k) merged = find (\<lambda>i. key i = Some k) ([] @ r1 @ r2)"
    using merge_loop_invariant [OF run] by simp_all
  from inv(2) assms(5) have "Some k \<in> key ` set merged"
    by auto
  with inv(1) have once: "length (filter (\<lambda>i. key i = Some k) merged) = 1"
    by (rule distinct_key_count)
  from assms(4) obtain fetched m1 merged' m2 active m3 where
      g: "fetch_jira_data up (new_tickets_jql today) 100 = Inr fetched"
        "new_tickets_loop fetched empty_metrics = Inr m1"
        "fetch_resolved up today = Inr merged'"
        "resolved_loop p merged' m1 = Inr m2"
        "fetch_jira_data up (active_jql today) 100 = Inr active"
        "active_loop p now active m2 = Inr m3"
        "teams_loop up today teams m3 = Inr m"
    by (rule gather_InrD)
  have m1: "resolved_tickets m1 = []"
    using new_tickets_loop_result [OF g(2)] by (simp add: empty_metrics_def)
  from g(3) assms(3) have same: "merged' = merged"
    by simp
  have rt: "resolved_tickets m = resolved_tickets m2"
    using teams_loop_result [OF g(7)] active_loop_result [OF g(6)] by simp
  have "map (\<lambda>t. (Some (r_key t), resolution_days t)) (resolved_tickets m2)
      = map (\<lambda>i. (key i, resolution_days_of p i)) merged"
    using resolved_loop_result [OF g(4)] m1 same by simp
  then have "map fst (map (\<lambda>t. (Some (r_key t), resolution_days t)) (resolved_tickets m2))
      = map fst (map (\<lambda>i. (key i, resolution_days_of p i)) merged)"
    by (rule arg_cong)
  then have keys: "map (\<lambda>t. Some (r_key t)) (resolved_tickets m) = map key merged"
    by (simp add: rt comp_def)
  have "length (filter (\<lambda>t. r_key t = k) (resolved_tickets m))
      = length (filter (\<lambda>y. y = Some k) (map (\<lambda>t. Some (r_key t)) (resolved_tickets m)))"
    unfolding length_filter_map by simp
  also have "\<dots> = length (filter (\<lambda>i. key i = Some k) merged)"
    unfolding keys length_filter_map ..
  finally have cnt: "length (filter (\<lambda>t. r_key t = k) (resolved_tickets m)) = 1"
    using once by simp
  have "length (map (\<lambda>t. Some (r_key t)) (resolved_tickets m)) = length (map key merged)"
    unfolding keys ..
  then have len: "resolvedTicketsCount (calculate today m) = length merged"
    by (simp add: calculate_def Let_def)
  show ?thesis
    using once inv(3) keys cnt len by simp
qed

theorem merged_once_first_occurrence_witness:
  "length (filter (\<lambda>i. key i = Some ''SE-2'') example_merged) = 1
   \<and> find (\<lambda>i. key i = Some ''SE-2'') example_merged
       = Some ((mk_issue ''SE-2'')\<lparr>summary := ''first'', created := ''2024-09-15T00:00:00Z'',
                                     histories := example_histories\<rparr>)
   \<and> length (filter (\<lambda>t. r_key t = ''SE-2'') (resolved_tickets example_gathered)) = 1
   \<and> resolvedTicketsCount (calculate 739154 example_gathered) = 3"
proof -
  have k1: "Some ''SE-2'' \<in> key ` set example_resolved1"
    by (simp add: example_resolved1_def mk_issue_def)
  have k2: "Some ''SE-2'' \<in> key ` set example_resolved2"
    by (simp add: example_resolved2_def mk_issue_def)
  have f: "find (\<lambda>i. key i = Some ''SE-2'') (example_resolved1 @ example_resolved2)
      = Some ((mk_issue ''SE-2'')\<lparr>summary := ''first'', created := ''2024-09-15T00:00:00Z'',
                                    histories := example_histories\<rparr>)"
    by (simp add: example_resolved1_def example_resolved2_def mk_issue_def)
  have n: "length example_merged = 3"
    by (simp add: example_merged_def)
  show ?thesis
    using merged_once_first_occurrence
      [OF example_fetches(2) example_fetches(3) example_fetch_resolved example_gather k1 k2]
    by (simp add: f n)
qed

subsection \<open>Incidents\<close>

lemma py_in_iff: "py_in sub s \<longleftrightarrow> (\<exists>pre post. s = pre @ sub @ post)"
proof (induction s)
  case Nil
  then show ?case by auto
next
  case (Cons c cs)
  show ?case
  proof
    assume "py_in sub (c # cs)"
    then consider "prefix sub (c # cs)" | "py_in sub cs" by auto
    then show "\<exists>pre post. c # cs = pre @ sub @ post"
    proof cases
      case 1
      then obtain post where "c # cs = sub @ post" by (auto simp: prefix_def)
      then have "c # cs = [] @ sub @ post" by simp
      then show ?thesis by blast
    next
      case 2
      with Cons.IH obtain pre post where "cs = pre @ sub @ post" by blast
      then have "c # cs = (c # pre) @ sub @ post" by simp
      then show ?thesis by blast
    qed
  next
    assume "\<exists>pre post. c # cs = pre @ sub @ post"
    then obtain pre post where eq: "c # cs = pre @ sub @ post" by blast
    show "py_in sub (c # cs)"
    proof (cases pre)
      case Nil
      with eq have "prefix sub (c # cs)" by (simp add: prefix_def)
      then show ?thesis by simp
    next
      case (Cons p ps)
      with eq have "cs = ps @ sub @ post" by simp
      with Cons.IH have "py_in sub cs" by blast
      then show ?thesis by simp
    qed
  qed
qed

lemma lower_incident: "lower ''incident'' = ''incident''"
  by (simp add: lower_def lower_char_def)

lemma sublist_of_map_iff:
  "(\<exists>pre post. map f s = pre @ sub @ post) \<longleftrightarrow> (\<exists>p m q. s = p @ m @ q \<and> map f m = sub)"
proof
  assume "\<exists>pre post. map f s = pre @ sub @ post"
  then obtain pre post where "map f s = pre @ (sub @ post)"
    by blast
  then have "\<exists>a r. s = a @ r \<and> pre = map f a \<and> sub @ post = map f r"
    by (simp only: map_eq_append_conv)
  then obtain a r where a: "s = a @ r" "map f r = sub @ post"
    by auto
  from a(2) have "\<exists>b c. r = b @ c \<and> sub = map f b \<and> post = map f c"
    by (simp only: map_eq_append_conv)
  then obtain b c where b: "r = b @ c" "map f b = sub"
    by auto
  from a(1) b show "\<exists>p m q. s = p @ m @ q \<and> map f m = sub"
    by blast
next
  assume "\<exists>p m q. s = p @ m @ q \<and> map f m = sub"
  then obtain p m q where "s = p @ m @ q" "map f m = sub"
    by blast
  then have "map f s = map f p @ sub @ map f q"
    by simp
  then show "\<exists>pre post. map f s = pre @ sub @ post"
    by blast
qed

lemma py_in_lower_iff: "py_in ''incident'' (lower label) \<longleftrightarrow> contains_ci label ''incident''"
  unfolding contains_ci_def lower_incident
  unfolding py_in_iff lower_def
  by (rule sublist_of_map_iff)

lemma is_incident_iff:
  "is_incident t \<longleftrightarrow> incident_spec (n_priority t) (n_labels t)"
  unfolding is_incident_def incident_spec_def list_ex_iff py_in_lower_iff
  by simp

text \<open>
  Claim C5. Let \<open>fetched\<close> be the result of the new-ticket query of a run that succeeds.
  The new tickets of the storage are the fetched issues with their priorities and labels,
  in order; the tickets held as incidents are exactly the new tickets whose priority is
  Highest or Critical or one of whose labels contains \<open>incident\<close>, case ignored; and
  \<open>incidentsCount\<close> is the number of fetched issues of that kind.
\<close>

theorem incident_classification:
  assumes "fetch_jira_data up (new_tickets_jql today) 100 = Inr fetched"
    and "gather p up today now = Inr m"
  shows "map (\<lambda>t. (Some (n_key t), n_priority t, n_labels t)) (new_tickets m)
           = map (\<lambda>i. (key i, priority i, labels i)) fetched
         \<and> incident_tickets m
             = filter (\<lambda>t. incident_spec (n_priority t) (n_labels t)) (new_tickets m)
         \<and> get_metrics p up today now = Inr (calculate today m)
         \<and> newTicketsCount (calculate today m) = length fetched
         \<and> incidentsCount (calculate today m)
             = length (filter (\<lambda>i. incident_spec (priority i) (labels i)) fetched)"
proof -
  from assms(2) obtain fetched' m1 merged m2 active m3 where
      g: "fetch_jira_data up (new_tickets_jql today) 100 = Inr fetched'"
        "new_tickets_loop fetched' empty_metrics = Inr m1"
        "fetch_resolved up today = Inr merged"
        "resolved_loop p merged m1 = Inr m2"
        "fetch_jira_data up (active_jql today) 100 = Inr active"
        "active_loop p now active m2 = Inr m3"
        "teams_loop up today teams m3 = Inr m"
    by (rule gather_InrD)
  from g(1) assms(1) have same: "fetched' = fetched"
    by simp
  have nt: "new_tickets m = new_tickets m1" and it: "incident_tickets m = incident_tickets m1"
    using teams_loop_result [OF g(7)] active_loop_result [OF g(6)]
      resolved_loop_result [OF g(4)] by simp_all
  have proj: "map (\<lambda>t. (Some (n_key t), n_priority t, n_labels t)) (new_tickets m)
      = map (\<lambda>i. (key i, priority i, labels i)) fetched"
    using new_tickets_loop_result [OF g(2)] same by (simp add: nt empty_metrics_def)
  have "incident_tickets m = filter is_incident (new_tickets m)"
    using new_tickets_loop_result [OF g(2)] by (simp add: nt it empty_metrics_def)
  moreover have "is_incident = (\<lambda>t. incident_spec (n_priority t) (n_labels t))"
    by (rule ext) (rule is_incident_iff)
  ultimately have inc: "incident_tickets m
      = filter (\<lambda>t. incident_spec (n_priority t) (n_labels t)) (new_tickets m)"
    by simp
  have ok: "get_metrics p up today now = Inr (calculate today m)"
    using assms(2) by (simp add: get_metrics_success)
  have "length (map (\<lambda>t. (Some (n_key t), n_priority t, n_labels t)) (new_tickets m))
      = length (map (\<lambda>i. (key i, priority i, labels i)) fetched)"
    unfolding proj ..
  then have n: "newTicketsCount (calculate today m) = length fetched"
    by (simp add: calculate_def Let_def)
  have "length (filter (\<lambda>t. incident_spec (n_priority t) (n_labels t)) (new_tickets m))
      = length (filter (\<lambda>x. incident_spec (fst (snd x)) (snd (snd x)))
                 (map (\<lambda>t. (Some (n_key t), n_priority t, n_labels t)) (new_tickets m)))"
    unfolding length_filter_map by simp
  also have "\<dots> = length (filter (\<lambda>i. incident_spec (priority i) (labels i)) fetched)"
    unfolding proj length_filter_map by simp
  finally have c: "incidentsCount (calculate today m)
      = length (filter (\<lambda>i. incident_spec (priority i) (labels i)) fetched)"
    by (simp add: calculate_def Let_def inc)
  show ?thesis
    using proj inc ok n c by simp
qed

theorem incident_classification_witness:
  "incidentsCount (calculate 739154 example_gathered) = 2
   \<and> length (filter (\<lambda>i. incident_spec (priority i) (labels i)) example_new) = 2
   \<and> map n_key (incident_tickets example_gathered) = [''SE-10'', ''SE-11'']
   \<and> get_metrics example_parser example_upstream 739154 0
       = Inr (calculate 739154 example_gathered)"
proof -
  have c: "incidentsCount (calculate 739154 example_gathered) = 2"
    by (simp add: calculate_def Let_def example_gathered_def)
  have k: "map n_key (incident_tickets example_gathered) = [''SE-10'', ''SE-11'']"
    by (simp add: example_gathered_def)
  show ?thesis
    using incident_classification [OF example_fetches(1) example_gather] c k
    by simp
qed

subsection \<open>The origin key of a transfer\<close>

lemma match_split:
  assumes "prefix p s" and "takeWhile P (drop (length p) s) \<noteq> []"
  shows "\<exists>ds rest. s = p @ ds @ rest \<and> ds = takeWhile P (drop (length p) s)
           \<and> ds \<noteq> [] \<and> list_all P ds \<and> (rest = [] \<or> \<not> P (hd rest))"
proof -
  from assms(1) obtain t where t: "s = p @ t"
    by (auto simp: prefix_def)
  define ds where "ds = takeWhile P t"
  define rest where "rest = dropWhile P t"
  have "t = ds @ rest"
    by (simp add: ds_def rest_def)
  moreover have "list_all P ds"
    unfolding ds_def list_all_iff using set_takeWhileD by fast
  moreover have "rest = [] \<or> \<not> P (hd rest)"
    using hd_dropWhile [of P t] unfolding rest_def by blast
  moreover have "ds = takeWhile P (drop (length p) s)" "ds \<noteq> []"
    using assms(2) by (simp_all add: ds_def t)
  ultimately show ?thesis
    using t by blast
qed

lemma no_match_split:
  assumes "\<not> (prefix p s \<and> takeWhile P (drop (length p) s) \<noteq> [])"
  shows "\<not> (\<exists>d. P d \<and> prefix (p @ [d]) s)"
proof
  assume "\<exists>d. P d \<and> prefix (p @ [d]) s"
  then obtain d t where d: "P d" "s = (p @ [d]) @ t"
    by (auto simp: prefix_def)
  then have "prefix p s" "takeWhile P (drop (length p) s) \<noteq> []"
    by simp_all
  with assms show False by blast
qed

lemma length_SE: "length ''SE-'' = 3"
  by simp

lemma match_here_Some:
  assumes "match_here s = Some m"
  shows "is_match_at s 0 m"
proof -
  from assms have pre: "prefix ''SE-'' s"
    and ne: "takeWhile is_digit (drop (length ''SE-'') s) \<noteq> []"
    and m: "m = ''SE-'' @ takeWhile is_digit (drop (length ''SE-'') s)"
    unfolding match_here_def length_SE by (simp_all split: if_splits)
  from match_split [OF pre ne] obtain ds rest where
      s: "s = ''SE-'' @ ds @ rest" and ds: "ds = takeWhile is_digit (drop (length ''SE-'') s)"
      and props: "ds \<noteq> []" "list_all is_digit ds" "rest = [] \<or> \<not> is_digit (hd rest)"
    by blast
  from m ds have m': "m = ''SE-'' @ ds"
    by simp
  have "drop 0 s = ''SE-'' @ ds @ rest \<and> m = ''SE-'' @ ds
      \<and> ds \<noteq> [] \<and> list_all is_digit ds \<and> (rest = [] \<or> \<not> is_digit (hd rest))"
    using s m' props by simp
  then show ?thesis
    unfolding is_match_at_def by (intro exI)
qed

lemma match_here_None:
  assumes "match_here s = None"
  shows "\<not> has_match_at s 0"
proof -
  from assms have "\<not> (prefix ''SE-'' s \<and> takeWhile is_digit (drop (length ''SE-'') s) \<noteq> [])"
    unfolding match_here_def length_SE by (simp split: if_splits)
  then show ?thesis
    unfolding has_match_at_def drop_0 by (rule no_match_split)
qed

lemma has_match_at_Nil: "\<not> has_match_at [] n"
  unfolding has_match_at_def by simp

lemma has_match_at_Suc: "has_match_at (c # cs) (Suc n) = has_match_at cs n"
  unfolding has_match_at_def by simp

lemma is_match_at_Suc: "is_match_at (c # cs) (Suc n) m = is_match_at cs n m"
  unfolding is_match_at_def by simp

lemma re_search_Some:
  "re_search s = Some m \<Longrightarrow> \<exists>n. is_match_at s n m \<and> (\<forall>j < n. \<not> has_match_at s j)"
proof (induction s)
  case Nil
  then show ?case by simp
next
  case (Cons c cs)
  show ?case
  proof (cases "match_here (c # cs)")
    case (Some m')
    with Cons.prems have "m' = m" by simp
    with Some have "is_match_at (c # cs) 0 m"
      by (simp add: match_here_Some)
    then have "is_match_at (c # cs) 0 m \<and> (\<forall>j < 0. \<not> has_match_at (c # cs) j)"
      by simp
    then show ?thesis ..
  next
    case None
    with Cons.prems have "re_search cs = Some m" by simp
    with Cons.IH obtain n where n: "is_match_at cs n m" "\<forall>j < n. \<not> has_match_at cs j"
      by blast
    have "\<forall>j < Suc n. \<not> has_match_at (c # cs) j"
    proof (intro allI impI)
      fix j assume "j < Suc n"
      then show "\<not> has_match_at (c # cs) j"
        using n(2) match_here_None [OF None]
        by (cases j) (simp_all add: has_match_at_Suc)
    qed
    with n(1) have "is_match_at (c # cs) (Suc n) m \<and> (\<forall>j < Suc n. \<not> has_match_at (c # cs) j)"
      by (simp add: is_match_at_Suc)
    then show ?thesis ..
  qed
qed

lemma re_search_None:
  "re_search s = None \<Longrightarrow> \<not> has_match_at s n"
proof (induction s arbitrary: n)
  case Nil
  then show ?case by (simp add: has_match_at_Nil)
next
  case (Cons c cs)
  from Cons.prems have none: "match_here (c # cs) = None" and rest: "re_search cs = None"
    by (simp_all split: option.splits)
  show ?case
    using match_here_None [OF none] Cons.IH [OF rest]
    by (cases n) (simp_all add: has_match_at_Suc)
qed

lemma classify_transfer_origin:
  assumes "fst (classify_transfer issue)"
  shows "recorded_origin (summary issue @ '' '' @ description issue)
           (snd (classify_transfer issue))"
proof (cases "re_search (summary issue @ '' '' @ description issue)")
  case None
  then have "\<forall>n. \<not> has_match_at (summary issue @ '' '' @ description issue) n"
    using re_search_None by blast
  moreover from None assms have "snd (classify_transfer issue) = ''Unknown''"
    by (cases "py_in ''SE-'' (summary issue) \<or> py_in ''SE-'' (description issue)")
      (simp_all add: classify_transfer_def)
  ultimately show ?thesis
    unfolding recorded_origin_def by blast
next
  case (Some m)
  with assms have "snd (classify_transfer issue) = m"
    by (cases "py_in ''SE-'' (summary issue) \<or> py_in ''SE-'' (description issue)")
      (simp_all add: classify_transfer_def)
  with re_search_Some [OF Some] show ?thesis
    unfolding recorded_origin_def by blast
qed

text \<open>
  Claim C9 says that the recorded origin identifier defaults to the string \<open>unknown\<close>.
  The transfer EIM-6 of the example has the summary \<open>SE- follow up\<close> and no description:
  no match of the pattern can start anywhere in its text, it is recorded as a transfer, and
  the identifier recorded for it is \<open>Unknown\<close>, which is not \<open>unknown\<close>.
\<close>

theorem transfer_default_is_capitalised:
  "gather example_parser example_upstream 739154 0 = Inr example_gathered
   \<and> example_unknown_transfer \<in> set (transfer_tickets example_gathered)
   \<and> t_summary example_unknown_transfer = ''SE- follow up''
   \<and> (\<forall>n. \<not> has_match_at (''SE- follow up'' @ '' '' @ []) n)
   \<and> original_se_key example_unknown_transfer = ''Unknown''
   \<and> original_se_key example_unknown_transfer \<noteq> ''unknown''"
proof -
  have "re_search (''SE- follow up'' @ '' '' @ []) = None"
    by (simp add: match_here_def is_digit_def)
  then have "\<forall>n. \<not> has_match_at (''SE- follow up'' @ '' '' @ []) n"
    using re_search_None by blast
  then show ?thesis
    by (simp add: example_gather example_unknown_transfer_def example_gathered_def)
qed

text \<open>
  Claim C9, amended. Every transfer ticket of the storage was recorded for an issue
  fetched for one of the teams, whose summary or description contains \<open>SE-\<close>; the origin
  identifier recorded for it is the match of \<open>SE-\d+\<close> at the first position of the
  summary, a space and the description where a match can start, and it is the string
  \<open>Unknown\<close> when there is no such position.
\<close>

theorem transfer_origin_key:
  assumes "gather p up today now = Inr m" and "t \<in> set (transfer_tickets m)"
  shows "\<exists>tm fetched issue.
           tm \<in> set teams
           \<and> fetch_jira_data up (transfer_jql tm today) 50 = Inr fetched
           \<and> issue \<in> set fetched
           \<and> key issue = Some (t_key t) \<and> team t = tm
           \<and> (py_in ''SE-'' (summary issue) \<or> py_in ''SE-'' (description issue))
           \<and> recorded_origin (summary issue @ '' '' @ description issue) (original_se_key t)"
proof -
  from assms(1) obtain fetched' m1 merged m2 active m3 where
      g: "fetch_jira_data up (new_tickets_jql today) 100 = Inr fetched'"
        "new_tickets_loop fetched' empty_metrics = Inr m1"
        "fetch_resolved up today = Inr merged"
        "resolved_loop p merged m1 = Inr m2"
        "fetch_jira_data up (active_jql today) 100 = Inr active"
        "active_loop p now active m2 = Inr m3"
        "teams_loop up today teams m3 = Inr m"
    by (rule gather_InrD)
  have "transfer_tickets m3 = []"
    using active_loop_result [OF g(6)] resolved_loop_result [OF g(4)]
      new_tickets_loop_result [OF g(2)] by (simp add: empty_metrics_def)
  with teams_loop_result [OF g(7)] assms(2)
  obtain tm fetched issue where tm: "tm \<in> set teams"
      and f: "fetch_jira_data up (transfer_jql tm today) 50 = Inr fetched"
      and i: "issue \<in> set fetched" and r: "records_transfer issue tm t"
    by fastforce
  from r have k: "key issue = Some (t_key t)" "team t = tm"
      and c: "fst (classify_transfer issue)"
      and o: "original_se_key t = snd (classify_transfer issue)"
    by (simp_all add: records_transfer_def)
  from c have se: "py_in ''SE-'' (summary issue) \<or> py_in ''SE-'' (description issue)"
    by (cases "py_in ''SE-'' (summary issue) \<or> py_in ''SE-'' (description issue)")
      (simp_all add: classify_transfer_def)
  from classify_transfer_origin [OF c] o
  have "recorded_origin (summary issue @ '' '' @ description issue) (original_se_key t)"
    by simp
  with tm f i k se show ?thesis
    by blast
qed

theorem transfer_origin_key_witness:
  "\<exists>tm fetched issue.
     tm \<in> set teams
     \<and> fetch_jira_data example_upstream (transfer_jql tm 739154) 50 = Inr fetched
     \<and> issue \<in> set fetched
     \<and> key issue = Some (t_key example_unknown_transfer)
     \<and> team example_unknown_transfer = tm
     \<and> (py_in ''SE-'' (summary issue) \<or> py_in ''SE-'' (description issue))
     \<and> recorded_origin (summary issue @ '' '' @ description issue)
         (original_se_key example_unknown_transfer)"
proof -
  have mem: "example_unknown_transfer \<in> set (transfer_tickets example_gathered)"
    by (simp add: example_unknown_transfer_def example_gathered_def)
  show ?thesis
    by (rule transfer_origin_key [OF example_gather mem])
qed

subsection \<open>The window of a run\<close>

lemma teams_loop_fetches:
  "teams_loop up today tms m = Inr m' \<Longrightarrow>
   list_all (\<lambda>tm. \<exists>fetched. fetch_jira_data up (transfer_jql tm today) 50 = Inr fetched) tms"
proof (induction tms arbitrary: m)
  case Nil
  then show ?case by simp
next
  case (Cons tm tms)
  from Cons.prems obtain fetched mm where
      f: "fetch_jira_data up (transfer_jql tm today) 50 = Inr fetched"
      and run: "teams_loop up today tms mm = Inr m'"
    by (auto simp: bind_err_Inr_iff)
  from Cons.IH [OF run] f show ?case
    by auto
qed

text \<open>What a successful run has fetched, query by query.\<close>

lemma gather_sources:
  assumes "gather p up today now = Inr m"
  shows "(\<exists>fetched. fetch_jira_data up (new_tickets_jql today) 100 = Inr fetched
            \<and> map (\<lambda>t. Some (n_key t)) (new_tickets m) = map key fetched)
         \<and> (\<exists>r1 r2. fetch_jira_data up (resolved_jql1 today) 100 = Inr r1
              \<and> fetch_jira_data up (resolved_jql2 today) 100 = Inr r2
              \<and> set (map (\<lambda>t. Some (r_key t)) (resolved_tickets m)) = key ` set (r1 @ r2))
         \<and> (\<exists>active. fetch_jira_data up (active_jql today) 100 = Inr active)
         \<and> list_all (\<lambda>tm. \<exists>fetched.
               fetch_jira_data up (transfer_jql tm today) 50 = Inr fetched) teams"
proof -
  from assms obtain fetched m1 merged m2 active m3 where
      g: "fetch_jira_data up (new_tickets_jql today) 100 = Inr fetched"
        "new_tickets_loop fetched empty_metrics = Inr m1"
        "fetch_resolved up today = Inr merged"
        "resolved_loop p merged m1 = Inr m2"
        "fetch_jira_data up (active_jql today) 100 = Inr active"
        "active_loop p now active m2 = Inr m3"
        "teams_loop up today teams m3 = Inr m"
    by (rule gather_InrD)
  have nt: "new_tickets m = new_tickets m1"
    using teams_loop_result [OF g(7)] active_loop_result [OF g(6)]
      resolved_loop_result [OF g(4)] by simp
  have "map (\<lambda>t. (Some (n_key t), n_priority t, n_labels t)) (new_tickets m)
      = map (\<lambda>i. (key i, priority i, labels i)) fetched"
    using new_tickets_loop_result [OF g(2)] by (simp add: nt empty_metrics_def)
  then have "map fst (map (\<lambda>t. (Some (n_key t), n_priority t, n_labels t)) (new_tickets m))
      = map fst (map (\<lambda>i. (key i, priority i, labels i)) fetched)"
    by (rule arg_cong)
  then have new: "map (\<lambda>t. Some (n_key t)) (new_tickets m) = map key fetched"
    by (simp add: comp_def)
  from g(3) obtain r1 r2 where
      r: "fetch_jira_data up (resolved_jql1 today) 100 = Inr r1"
        "fetch_jira_data up (resolved_jql2 today) 100 = Inr r2"
    by (auto simp: fetch_resolved_def bind_err_Inr_iff)
  from fetch_resolved_is_merge [OF r g(3)]
  obtain S where run: "merge_loop (r1 @ r2) ({}, []) = Inr (S, merged)" ..
  have mk: "key ` set merged = key ` set (r1 @ r2)"
    using merge_loop_invariant [OF run] by simp
  have m1: "resolved_tickets m1 = []"
    using new_tickets_loop_result [OF g(2)] by (simp add: empty_metrics_def)
  have rt: "resolved_tickets m = resolved_tickets m2"
    using teams_loop_result [OF g(7)] active_loop_result [OF g(6)] by simp
  have "map (\<lambda>t. (Some (r_key t), resolution_days t)) (resolved_tickets m2)
      = map (\<lambda>i. (key i, resolution_days_of p i)) merged"
    using resolved_loop_result [OF g(4)] m1 by simp
  then have "map fst (map (\<lambda>t. (Some (r_key t), resolution_days t)) (resolved_tickets m2))
      = map fst (map (\<lambda>i. (key i, resolution_days_of p i)) merged)"
    by (rule arg_cong)
  then have "map (\<lambda>t. Some (r_key t)) (resolved_tickets m) = map key merged"
    by (simp add: rt comp_def)
  then have "set (map (\<lambda>t. Some (r_key t)) (resolved_tickets m)) = set (map key merged)"
    by (rule arg_cong)
  then have res: "set (map (\<lambda>t. Some (r_key t)) (resolved_tickets m)) = key ` set (r1 @ r2)"
    using mk by simp
  show ?thesis
    using g(1) new r res g(5) teams_loop_fetches [OF g(7)] by blast
qed

text \<open>
  Claim C7. Let a run for \<open>today\<close> succeed. The window starts \<open>7 + today.weekday()\<close> days
  before \<open>today\<close> and ends six days later; it starts on a Monday, ends on a Sunday, and
  \<open>today\<close> lies in the week that follows it, so it is the full calendar week before the
  current one. Its two dates are written as ten characters, year, month and day separated
  by hyphens. Every fetch of the run is for this window: the new tickets of the storage
  are the result of the created-query over the two dates, the resolved tickets carry the
  keys of the results of the two resolved-queries over them, the active-query and the
  transfer query of every team over them were answered, and \<open>weekRange\<close> shows them. No other
  query is read: an upstream that gives the same replies to these queries gives the same
  report.
\<close>

theorem week_window_is_previous_week:
  assumes "gather p up today now = Inr m"
  shows "let ws = today - (7 + weekday today); we = ws + 6;
             a = strftime_ymd ws; b = strftime_ymd we
         in weekday ws = 0 \<and> weekday we = 6 \<and> ws + 7 \<le> today \<and> today < ws + 14
            \<and> length a = 10 \<and> a ! 4 = CHR ''-'' \<and> a ! 7 = CHR ''-''
            \<and> length b = 10 \<and> b ! 4 = CHR ''-'' \<and> b ! 7 = CHR ''-''
            \<and> (\<exists>fetched.
                 fetch_jira_data up
                   (''project = SE AND created >= \"'' @ a @ ''\" AND created <= \"'' @ b
                    @ ''\"'') 100 = Inr fetched
                 \<and> map (\<lambda>t. Some (n_key t)) (new_tickets m) = map key fetched)
            \<and> (\<exists>r1 r2.
                 fetch_jira_data up
                   (''project = SE AND resolved >= \"'' @ a @ ''\" AND resolved <= \"'' @ b
                    @ ''\"'') 100 = Inr r1
                 \<and> fetch_jira_data up
                     (''project = SE AND status CHANGED TO \"Done\" DURING (\"'' @ a
                      @ ''\", \"'' @ b @ ''\")'') 100 = Inr r2
                 \<and> set (map (\<lambda>t. Some (r_key t)) (resolved_tickets m)) = key ` set (r1 @ r2))
            \<and> (\<exists>active.
                 fetch_jira_data up
                   (''project = SE AND updated >= \"'' @ a @ ''\" AND updated <= \"'' @ b
                    @ ''\" AND status NOT IN (\"Done\", \"Closed\", \"Resolved\")'') 100
                 = Inr active)
            \<and> list_all (\<lambda>tm. \<exists>fetched.
                 fetch_jira_data up
                   (''project = '' @ tm @ '' AND created >= \"'' @ a
                    @ ''\" AND created <= \"'' @ b
                    @ ''\" AND (text ~ \"SE-\" OR summary ~ \"SE-\")'') 50
                 = Inr fetched) teams
            \<and> get_metrics p up today now = Inr (calculate today m)
            \<and> weekRange (calculate today m) = a @ '' to '' @ b
            \<and> (\<forall>up'.
                 up' (''project = SE AND created >= \"'' @ a @ ''\" AND created <= \"'' @ b
                      @ ''\"'')
                 = up (''project = SE AND created >= \"'' @ a @ ''\" AND created <= \"'' @ b
                       @ ''\"'')
                 \<and> up' (''project = SE AND resolved >= \"'' @ a @ ''\" AND resolved <= \"''
                        @ b @ ''\"'')
                   = up (''project = SE AND resolved >= \"'' @ a @ ''\" AND resolved <= \"''
                         @ b @ ''\"'')
                 \<and> up' (''project = SE AND status CHANGED TO \"Done\" DURING (\"'' @ a
                        @ ''\", \"'' @ b @ ''\")'')
                   = up (''project = SE AND status CHANGED TO \"Done\" DURING (\"'' @ a
                         @ ''\", \"'' @ b @ ''\")'')
                 \<and> up' (''project = SE AND updated >= \"'' @ a @ ''\" AND updated <= \"'' @ b
                        @ ''\" AND status NOT IN (\"Done\", \"Closed\", \"Resolved\")'')
                   = up (''project = SE AND updated >= \"'' @ a @ ''\" AND updated <= \"'' @ b
                         @ ''\" AND status NOT IN (\"Done\", \"Closed\", \"Resolved\")'')
                 \<and> list_all (\<lambda>tm.
                       up' (''project = '' @ tm @ '' AND created >= \"'' @ a
                            @ ''\" AND created <= \"'' @ b
                            @ ''\" AND (text ~ \"SE-\" OR summary ~ \"SE-\")'')
                       = up (''project = '' @ tm @ '' AND created >= \"'' @ a
                             @ ''\" AND created <= \"'' @ b
                             @ ''\" AND (text ~ \"SE-\" OR summary ~ \"SE-\")'')) teams
                 \<longrightarrow> get_metrics p up' today now = Inr (calculate today m))"
proof -
  have ok: "get_metrics p up today now = Inr (calculate today m)"
    using assms by (simp add: get_metrics_success)
  have ws: "week_start today = today - (7 + weekday today)"
    and we: "week_end today = today - (7 + weekday today) + 6"
    by (simp_all add: week_start_def week_end_def this_monday_def)
  have "weekRange (calculate today m)
      = strftime_ymd (week_start today) @ '' to '' @ strftime_ymd (week_end today)"
    by (simp add: calculate_def Let_def)
  then have rng: "weekRange (calculate today m)
      = strftime_ymd (today - (7 + weekday today)) @ '' to ''
        @ strftime_ymd (today - (7 + weekday today) + 6)"
    unfolding ws we .
  have frame: "get_metrics p up' today now = Inr (calculate today m)"
    if "up' (new_tickets_jql today) = up (new_tickets_jql today)"
      and "up' (resolved_jql1 today) = up (resolved_jql1 today)"
      and "up' (resolved_jql2 today) = up (resolved_jql2 today)"
      and "up' (active_jql today) = up (active_jql today)"
      and "list_all (\<lambda>tm. up' (transfer_jql tm today) = up (transfer_jql tm today)) teams"
    for up'
  proof -
    have "gather p up' today now = gather p up today now"
      using that by (intro gather_reads_window_queries) (simp_all add: list_all_iff)
    with ok show ?thesis
      by (simp add: get_metrics_def)
  qed
  show ?thesis
    unfolding Let_def
    using week_window_arith [of today] gather_sources [OF assms] ok rng frame
      strftime_ymd_shape [of "today - (7 + weekday today)"]
      strftime_ymd_shape [of "today - (7 + weekday today) + 6"]
    unfolding window_queries
    by blast
qed

theorem week_window_is_previous_week_witness:
  "weekday 739154 = 2
   \<and> 739154 - (7 + weekday 739154) = 739145
   \<and> weekday 739145 = 0 \<and> weekday (739145 + 6) = 6
   \<and> strftime_ymd 739145 = ''2024-09-16''
   \<and> strftime_ymd (739145 + 6) = ''2024-09-22''
   \<and> fetch_jira_data example_upstream
        ''project = SE AND created >= \"2024-09-16\" AND created <= \"2024-09-22\"'' 100
       = Inr example_new
   \<and> fetch_jira_data example_upstream
        ''project = SE AND resolved >= \"2024-09-16\" AND resolved <= \"2024-09-22\"'' 100
       = Inr example_resolved1
   \<and> fetch_jira_data example_upstream
        ''project = SE AND status CHANGED TO \"Done\" DURING (\"2024-09-16\", \"2024-09-22\")''
        100
       = Inr example_resolved2
   \<and> fetch_jira_data example_upstream
        ''project = EIM AND created >= \"2024-09-16\" AND created <= \"2024-09-22\" AND (text ~ \"SE-\" OR summary ~ \"SE-\")''
        50
       = Inr example_transfers
   \<and> map n_key (new_tickets example_gathered) = [''SE-10'', ''SE-11'', ''SE-12'']
   \<and> map r_key (resolved_tickets example_gathered) = [''SE-1'', ''SE-2'', ''SE-3'']
   \<and> get_metrics example_parser example_upstream 739154 0
       = Inr (calculate 739154 example_gathered)
   \<and> weekRange (calculate 739154 example_gathered) = ''2024-09-16 to 2024-09-22''"
proof -
  note w = week_window_is_previous_week [OF example_gather, unfolded Let_def]
  have d: "weekday 739154 = 2" "739154 - (7 + weekday 739154) = 739145"
    by (simp_all add: weekday_def)
  have y: "strftime_ymd 739145 = ''2024-09-16''" "strftime_ymd (739145 + 6) = ''2024-09-22''"
    by (simp_all add: strftime_ymd_examples)
  from w have "weekday (739154 - (7 + weekday 739154)) = 0"
      "weekday (739154 - (7 + weekday 739154) + 6) = 6"
    by (rule conjunct1, rule conjunct2 [THEN conjunct1])
  then have wd: "weekday 739145 = 0" "weekday (739145 + 6) = 6"
    by (simp_all add: d)
  from w have ok: "get_metrics example_parser example_upstream 739154 0
      = Inr (calculate 739154 example_gathered)"
    by (elim conjE)
  from w have "weekRange (calculate 739154 example_gathered)
      = strftime_ymd (739154 - (7 + weekday 739154)) @ '' to ''
        @ strftime_ymd (739154 - (7 + weekday 739154) + 6)"
    by (elim conjE)
  then have rng: "weekRange (calculate 739154 example_gathered) = ''2024-09-16 to 2024-09-22''"
    by (simp add: d strftime_ymd_examples)
  have f: "fetch_jira_data example_upstream
        ''project = SE AND created >= \"2024-09-16\" AND created <= \"2024-09-22\"'' 100
       = Inr example_new"
      "fetch_jira_data example_upstream
        ''project = SE AND resolved >= \"2024-09-16\" AND resolved <= \"2024-09-22\"'' 100
       = Inr example_resolved1"
      "fetch_jira_data example_upstream
        ''project = SE AND status CHANGED TO \"Done\" DURING (\"2024-09-16\", \"2024-09-22\")''
        100
       = Inr example_resolved2"
    using example_fetches(1-3) by (simp_all only: example_jqls)
  have t: "fetch_jira_data example_upstream
        ''project = EIM AND created >= \"2024-09-16\" AND created <= \"2024-09-22\" AND (text ~ \"SE-\" OR summary ~ \"SE-\")''
        50
       = Inr example_transfers"
    using example_fetches(5) by (simp add: example_jqls)
  have k: "map n_key (new_tickets example_gathered) = [''SE-10'', ''SE-11'', ''SE-12'']"
      "map r_key (resolved_tickets example_gathered) = [''SE-1'', ''SE-2'', ''SE-3'']"
    by (simp_all add: example_gathered_def)
  show ?thesis
    by (intro conjI d y wd f t k ok rng)
qed

end
